theory Spec2Isabelle
  imports Complex_Main
begin

section \<open>Numbers\<close>

text \<open>
  Every coordinate, radius and zoom factor of the components is a JavaScript \<open>number\<close>.
  A number is modelled as a real or one of the three special values of the language:
  \<open>Infinity\<close>, \<open>-Infinity\<close> and \<open>NaN\<close>. The arithmetic below follows the language's
  rules for the special values (\<open>0/0\<close>, \<open>Infinity - Infinity\<close> and \<open>0 * Infinity\<close> are
  \<open>NaN\<close>, a comparison with \<open>NaN\<close> is false, \<open>NaN === NaN\<close> is false). Finite values are
  exact reals: rounding, overflow of a finite result and the sign of zero are not
  modelled (a zero divisor counts as \<open>+0\<close>). Where a property is about the rounding
  itself, as the distance of a route's endpoint from its node's centre is, the
  computation has a second definition on reals with the rounding written out
  (\<open>connection_points_fl\<close>).
\<close>

datatype jsnum = Fin real | PInf | NInf | NaN

instantiation jsnum :: "{plus, minus, uminus, times, inverse, ord}"
begin

fun uminus_jsnum :: "jsnum \<Rightarrow> jsnum" where
  "uminus_jsnum (Fin a) = Fin (- a)"
| "uminus_jsnum PInf = NInf"
| "uminus_jsnum NInf = PInf"
| "uminus_jsnum NaN = NaN"

fun plus_jsnum :: "jsnum \<Rightarrow> jsnum \<Rightarrow> jsnum" where
  "plus_jsnum NaN _ = NaN"
| "plus_jsnum _ NaN = NaN"
| "plus_jsnum (Fin a) (Fin b) = Fin (a + b)"
| "plus_jsnum PInf NInf = NaN"
| "plus_jsnum NInf PInf = NaN"
| "plus_jsnum PInf _ = PInf"
| "plus_jsnum _ PInf = PInf"
| "plus_jsnum NInf _ = NInf"
| "plus_jsnum _ NInf = NInf"

definition minus_jsnum :: "jsnum \<Rightarrow> jsnum \<Rightarrow> jsnum" where
  "minus_jsnum a b = a + (- b)"

fun times_jsnum :: "jsnum \<Rightarrow> jsnum \<Rightarrow> jsnum" where
  "times_jsnum NaN _ = NaN"
| "times_jsnum _ NaN = NaN"
| "times_jsnum (Fin a) (Fin b) = Fin (a * b)"
| "times_jsnum (Fin a) PInf = (if a = 0 then NaN else if 0 < a then PInf else NInf)"
| "times_jsnum (Fin a) NInf = (if a = 0 then NaN else if 0 < a then NInf else PInf)"
| "times_jsnum PInf (Fin b) = (if b = 0 then NaN else if 0 < b then PInf else NInf)"
| "times_jsnum NInf (Fin b) = (if b = 0 then NaN else if 0 < b then NInf else PInf)"
| "times_jsnum PInf PInf = PInf"
| "times_jsnum PInf NInf = NInf"
| "times_jsnum NInf PInf = NInf"
| "times_jsnum NInf NInf = PInf"

fun divide_jsnum :: "jsnum \<Rightarrow> jsnum \<Rightarrow> jsnum" where
  "divide_jsnum NaN _ = NaN"
| "divide_jsnum _ NaN = NaN"
| "divide_jsnum (Fin a) (Fin b) =
     (if b \<noteq> 0 then Fin (a / b) else if a = 0 then NaN else if 0 < a then PInf else NInf)"
| "divide_jsnum (Fin a) _ = Fin 0"
| "divide_jsnum PInf (Fin b) = (if 0 \<le> b then PInf else NInf)"
| "divide_jsnum NInf (Fin b) = (if 0 \<le> b then NInf else PInf)"
| "divide_jsnum _ _ = NaN"

definition inverse_jsnum :: "jsnum \<Rightarrow> jsnum" where
  "inverse_jsnum a = divide (Fin 1) a"

fun less_eq_jsnum :: "jsnum \<Rightarrow> jsnum \<Rightarrow> bool" where
  "less_eq_jsnum NaN _ = False"
| "less_eq_jsnum _ NaN = False"
| "less_eq_jsnum (Fin a) (Fin b) = (a \<le> b)"
| "less_eq_jsnum NInf _ = True"
| "less_eq_jsnum _ PInf = True"
| "less_eq_jsnum _ _ = False"

fun less_jsnum :: "jsnum \<Rightarrow> jsnum \<Rightarrow> bool" where
  "less_jsnum NaN _ = False"
| "less_jsnum _ NaN = False"
| "less_jsnum (Fin a) (Fin b) = (a < b)"
| "less_jsnum PInf _ = False"
| "less_jsnum _ NInf = False"
| "less_jsnum _ _ = True"

instance ..

end

text \<open>\<open>isNaN(v)\<close> on a number.\<close>

fun isNaN :: "jsnum \<Rightarrow> bool" where
  "isNaN NaN = True"
| "isNaN _ = False"

text \<open>\<open>a === b\<close> on two numbers: \<open>NaN\<close> is equal to nothing, itself included.\<close>

definition strict_eq :: "jsnum \<Rightarrow> jsnum \<Rightarrow> bool" where
  "strict_eq a b = (\<not> isNaN a \<and> \<not> isNaN b \<and> a = b)"

text \<open>\<open>Math.sqrt\<close>.\<close>

fun Math_sqrt :: "jsnum \<Rightarrow> jsnum" where
  "Math_sqrt (Fin a) = (if a < 0 then NaN else Fin (sqrt a))"
| "Math_sqrt PInf = PInf"
| "Math_sqrt NInf = NaN"
| "Math_sqrt NaN = NaN"

text \<open>
  \<open>Math.min(...vs)\<close> and \<open>Math.max(...vs)\<close>: \<open>NaN\<close> as soon as one argument is \<open>NaN\<close>,
  \<open>Infinity\<close> and \<open>-Infinity\<close> for no argument at all.
\<close>

definition min2 :: "jsnum \<Rightarrow> jsnum \<Rightarrow> jsnum" where
  "min2 a b = (if isNaN a \<or> isNaN b then NaN else if a \<le> b then a else b)"

definition max2 :: "jsnum \<Rightarrow> jsnum \<Rightarrow> jsnum" where
  "max2 a b = (if isNaN a \<or> isNaN b then NaN else if b \<le> a then a else b)"

definition Math_min :: "jsnum list \<Rightarrow> jsnum" where
  "Math_min vs = foldr min2 vs PInf"

definition Math_max :: "jsnum list \<Rightarrow> jsnum" where
  "Math_max vs = foldr max2 vs NInf"

text \<open>
  \<open>Math.random()\<close> draws from a global generator. The generator is an explicit sequence
  of the values it will return, each in \<open>[0, 1)\<close>, and a cursor into it: a function
  that draws takes the cursor and returns the moved cursor.
\<close>

type_synonym random_source = "nat \<Rightarrow> real"

definition unit_interval :: "random_source \<Rightarrow> bool" where
  "unit_interval rnd = (\<forall>k. 0 \<le> rnd k \<and> rnd k < 1)"

definition Math_random :: "random_source \<Rightarrow> nat \<Rightarrow> jsnum \<times> nat" where
  "Math_random rnd k = (Fin (rnd k), Suc k)"

text \<open>
  \<open>vs.map(f)\<close> for a callback that draws random numbers: the cursor is threaded through
  the calls in list order.
\<close>

fun map_drawing :: "('a \<Rightarrow> nat \<Rightarrow> 'b \<times> nat) \<Rightarrow> 'a list \<Rightarrow> nat \<Rightarrow> 'b list \<times> nat" where
  "map_drawing f [] k = ([], k)"
| "map_drawing f (a # as) k =
     (let (b, k1) = f a k; (bs, k2) = map_drawing f as k1 in (b # bs, k2))"

section \<open>Data model\<close>

text \<open>
  The input records, the \<open>nodes\<close> and \<open>routes\<close> props of both components
  (\<open>NetworkNode\<close> and \<open>NetworkRoute\<close> in \<open>AdvancedNetworkTopology\<close>, the anonymous prop
  types of \<open>NetworkTopologyVisualization\<close>).
\<close>

record InputNode =
  in_id :: string
  in_name :: string
  in_type :: string
  lat :: jsnum
  lng :: jsnum
  capacity :: "jsnum option"
  production :: "jsnum option"
  district :: "string option"

record InputRoute =
  rt_id :: string
  from_id :: string
  to_id :: string
  distance_km :: jsnum
  cost_per_trip :: jsnum
  vehicle_type :: string

text \<open>\<open>CanvasNode\<close> and \<open>CanvasRoute\<close> of \<open>AdvancedNetworkTopology\<close> and its renderer.\<close>

record CanvasNode =
  cn_id :: string
  cn_name :: string
  cn_x :: jsnum
  cn_y :: jsnum
  cn_radius :: jsnum
  cn_color :: string
  cn_type :: string
  cn_isSelected :: bool
  cn_isHovered :: bool

record CanvasRoute =
  cr_id :: string
  cr_fromX :: jsnum
  cr_fromY :: jsnum
  cr_toX :: jsnum
  cr_toY :: jsnum
  cr_isHighlighted :: bool
  cr_color :: string
  cr_width :: jsnum
  cr_distance :: jsnum
  cr_cost :: jsnum
  cr_vehicleType :: string

text \<open>
  \<open>NetworkNode\<close> and \<open>NetworkRoute\<close> of \<open>NetworkTopologyVisualization\<close>, the state of the
  variant with dragging.
\<close>

record NetworkNode =
  nn_id :: string
  nn_name :: string
  nn_type :: string
  nn_x :: jsnum
  nn_y :: jsnum
  nn_radius :: jsnum
  nn_color :: string
  nn_isSelected :: bool
  nn_isDragging :: bool
  nn_capacity :: "jsnum option"
  nn_production :: "jsnum option"
  nn_district :: "string option"

record NetworkRoute =
  nr_id :: string
  nr_fromNodeId :: string
  nr_toNodeId :: string
  nr_distance :: jsnum
  nr_cost :: jsnum
  nr_vehicleType :: string
  nr_isActive :: bool
  nr_isHighlighted :: bool

text \<open>
  \<open>nodeTypeConfig[node.type] || nodeTypeConfig.default\<close>: the colour and size of a node
  type, the same table in both components (the glyph of the second one is left out).
  A type string that names an inherited property of the table object is not modelled.
\<close>

record type_config =
  cfg_color :: string
  cfg_size :: jsnum

definition nodeTypeConfig :: "string \<Rightarrow> type_config" where
  "nodeTypeConfig t =
     (if t = ''farm'' then \<lparr>cfg_color = ''#10B981'', cfg_size = Fin 25\<rparr>
      else if t = ''collection_center'' then \<lparr>cfg_color = ''#3B82F6'', cfg_size = Fin 30\<rparr>
      else if t = ''processing_plant'' then \<lparr>cfg_color = ''#8B5CF6'', cfg_size = Fin 35\<rparr>
      else if t = ''distributor'' then \<lparr>cfg_color = ''#F59E0B'', cfg_size = Fin 30\<rparr>
      else if t = ''retail'' then \<lparr>cfg_color = ''#EF4444'', cfg_size = Fin 25\<rparr>
      else \<lparr>cfg_color = ''#6B7280'', cfg_size = Fin 25\<rparr>)"

abbreviation (input) canvasWidth :: jsnum where
  "canvasWidth \<equiv> Fin 800"

abbreviation (input) canvasHeight :: jsnum where
  "canvasHeight \<equiv> Fin 600"

section \<open>Connector geometry\<close>

text \<open>
  The six lines under "Calculate connection points on node edges", the same in the
  initialisation of \<open>AdvancedNetworkTopology\<close> and in \<open>drawRoute\<close> of
  \<open>NetworkTopologyVisualization\<close>: from the centres and radii of the two nodes to
  \<open>(fromX, fromY, toX, toY)\<close>. There is no test of \<open>distance\<close> before the divisions.
\<close>

definition connection_points ::
  "jsnum \<Rightarrow> jsnum \<Rightarrow> jsnum \<Rightarrow> jsnum \<Rightarrow> jsnum \<Rightarrow> jsnum \<Rightarrow> jsnum \<times> jsnum \<times> jsnum \<times> jsnum" where
  "connection_points fx fy fr tx ty tr =
     (let dx = tx - fx;
          dy = ty - fy;
          distance = Math_sqrt (dx * dx + dy * dy)
      in (fx + (dx / distance) * fr,
          fy + (dy / distance) * fr,
          tx - (dx / distance) * tr,
          ty - (dy / distance) * tr))"

text \<open>
  The same six lines on finite numbers, with the rounding of the arithmetic written
  out: \<open>fl\<close> is applied to the exact result of every operation, which is how a
  floating-point operation computes. \<open>rounds_within u fl\<close> says that \<open>fl\<close> changes no
  number by more than the fraction \<open>u\<close> of it; rounding to the nearest binary64 number
  does so with \<open>u\<close> two to the power \<open>-53\<close> on every result that does not overflow and
  is not below the normal range. With \<open>fl\<close> the identity the numbers are the exact reals of
  \<open>connection_points\<close>.
\<close>

definition rounds_within :: "real \<Rightarrow> (real \<Rightarrow> real) \<Rightarrow> bool" where
  "rounds_within u fl = (\<forall>x. \<bar>fl x - x\<bar> \<le> u * \<bar>x\<bar>)"

definition connection_points_fl ::
  "(real \<Rightarrow> real) \<Rightarrow> real \<Rightarrow> real \<Rightarrow> real \<Rightarrow> real \<Rightarrow> real \<Rightarrow> real \<Rightarrow> real \<times> real \<times> real \<times> real" where
  "connection_points_fl fl fx fy fr tx ty tr =
     (let dx = fl (tx - fx);
          dy = fl (ty - fy);
          distance = fl (sqrt (fl (fl (dx * dx) + fl (dy * dy))))
      in (fl (fx + fl (fl (dx / distance) * fr)),
          fl (fy + fl (fl (dy / distance) * fr)),
          fl (tx - fl (fl (dx / distance) * tr)),
          fl (ty - fl (fl (dy / distance) * tr))))"

text \<open>
  Rounding to the nearest number with 53 significant bits, which is what binary64
  arithmetic does with a result in its normal range: \<open>ulp\<close> is the distance between
  two such numbers around \<open>x\<close>. (A tie is rounded upwards here and to the even
  neighbour in binary64; the bound on the error is the same.)
\<close>

definition round53 :: "real \<Rightarrow> real" where
  "round53 x =
     (if x = 0 then 0
      else (let ulp = 2 powr (of_int \<lfloor>log 2 \<bar>x\<bar>\<rfloor> - 52)
            in of_int (round (x / ulp)) * ulp))"

section \<open>AdvancedNetworkTopology: building the scene\<close>

abbreviation (input) adv_padding :: jsnum where
  "adv_padding \<equiv> Fin 60"

text \<open>
  The callback of \<open>inputNodes.map\<close>: \<open>projected_xy\<close> is the \<open>let x, y\<close> with its two
  branches, \<open>nan_fallback\<close> the \<open>isNaN(v) ? Math.random() * span + padding : v\<close> of the
  returned object.
\<close>

definition adv_projected_xy ::
  "random_source \<Rightarrow> jsnum \<Rightarrow> jsnum \<Rightarrow> jsnum \<Rightarrow> jsnum \<Rightarrow> InputNode \<Rightarrow> nat \<Rightarrow> (jsnum \<times> jsnum) \<times> nat" where
  "adv_projected_xy rnd minLat maxLat minLng maxLng node k =
     (if strict_eq maxLng minLng \<or> strict_eq maxLat minLat
      then (let (r1, k1) = Math_random rnd k;
                x = canvasWidth / Fin 2 + (r1 - Fin 0.5) * Fin 200;
                (r2, k2) = Math_random rnd k1;
                y = canvasHeight / Fin 2 + (r2 - Fin 0.5) * Fin 200
            in ((x, y), k2))
      else ((adv_padding + ((lng node - minLng) / (maxLng - minLng)) * (canvasWidth - Fin 2 * adv_padding),
             adv_padding + ((maxLat - lat node) / (maxLat - minLat)) * (canvasHeight - Fin 2 * adv_padding)),
            k))"

definition nan_fallback :: "random_source \<Rightarrow> jsnum \<Rightarrow> jsnum \<Rightarrow> jsnum \<Rightarrow> nat \<Rightarrow> jsnum \<times> nat" where
  "nan_fallback rnd extent padding v k =
     (if isNaN v then (let (r, k1) = Math_random rnd k in (r * extent + padding, k1))
      else (v, k))"

definition adv_canvasNode ::
  "random_source \<Rightarrow> jsnum \<Rightarrow> jsnum \<Rightarrow> jsnum \<Rightarrow> jsnum \<Rightarrow> InputNode \<Rightarrow> nat \<Rightarrow> CanvasNode \<times> nat" where
  "adv_canvasNode rnd minLat maxLat minLng maxLng node k =
     (let config = nodeTypeConfig (in_type node);
          ((x, y), k1) = adv_projected_xy rnd minLat maxLat minLng maxLng node k;
          (x', k2) = nan_fallback rnd (canvasWidth - Fin 2 * adv_padding) adv_padding x k1;
          (y', k3) = nan_fallback rnd (canvasHeight - Fin 2 * adv_padding) adv_padding y k2
      in (\<lparr>cn_id = in_id node, cn_name = in_name node, cn_x = x', cn_y = y',
           cn_radius = cfg_size config, cn_color = cfg_color config, cn_type = in_type node,
           cn_isSelected = False, cn_isHovered = False\<rparr>, k3))"

definition newCanvasNodes :: "random_source \<Rightarrow> InputNode list \<Rightarrow> nat \<Rightarrow> CanvasNode list \<times> nat" where
  "newCanvasNodes rnd inputNodes k =
     (let latitudes = map lat inputNodes;
          longitudes = map lng inputNodes;
          minLat = Math_min latitudes;
          maxLat = Math_max latitudes;
          minLng = Math_min longitudes;
          maxLng = Math_max longitudes
      in map_drawing (adv_canvasNode rnd minLat maxLat minLng maxLng) inputNodes k)"

text \<open>
  The callback of \<open>inputRoutes.map\<close>: \<open>None\<close> is the \<open>null\<close> returned for a route with a
  missing endpoint, which \<open>.filter(Boolean)\<close> then removes.
\<close>

definition adv_canvasRoute :: "CanvasNode list \<Rightarrow> InputRoute \<Rightarrow> CanvasRoute option" where
  "adv_canvasRoute nodes route =
     (case (find (\<lambda>n. cn_id n = from_id route) nodes, find (\<lambda>n. cn_id n = to_id route) nodes) of
        (Some fromNode, Some toNode) \<Rightarrow>
          (let (fromX, fromY, toX, toY) =
                 connection_points (cn_x fromNode) (cn_y fromNode) (cn_radius fromNode)
                                   (cn_x toNode) (cn_y toNode) (cn_radius toNode)
           in Some \<lparr>cr_id = rt_id route, cr_fromX = fromX, cr_fromY = fromY, cr_toX = toX,
                    cr_toY = toY, cr_isHighlighted = False, cr_color = ''#94A3B8'',
                    cr_width = Fin 2, cr_distance = distance_km route,
                    cr_cost = cost_per_trip route, cr_vehicleType = vehicle_type route\<rparr>)
      | _ \<Rightarrow> None)"

definition newCanvasRoutes :: "CanvasNode list \<Rightarrow> InputRoute list \<Rightarrow> CanvasRoute list" where
  "newCanvasRoutes nodes inputRoutes = List.map_filter (adv_canvasRoute nodes) inputRoutes"

section \<open>AdvancedNetworkTopology: state, effects and handlers\<close>

record adv_state =
  canvasNodes :: "CanvasNode list"
  canvasRoutes :: "CanvasRoute list"
  selectedNodeId :: "string option"
  selectedRouteId :: "string option"
  hoveredNodeId :: "string option"
  zoom :: jsnum
  pan :: "jsnum \<times> jsnum"
  showLabels :: bool
  showGrid :: bool
  showRoutes :: bool

text \<open>The initial values of the \<open>useState\<close> calls.\<close>

definition adv_initial :: adv_state where
  "adv_initial =
     \<lparr>canvasNodes = [], canvasRoutes = [], selectedNodeId = None, selectedRouteId = None,
      hoveredNodeId = None, zoom = Fin 1, pan = (Fin 0, Fin 0), showLabels = True,
      showGrid = True, showRoutes = True\<rparr>"

text \<open>
  The effect "Initialize canvas data from input" (dependencies \<open>inputNodes\<close>,
  \<open>inputRoutes\<close>). With no input node it returns before any \<open>set\<close> call, so the state
  stays as it was.
\<close>

definition adv_init_effect ::
  "random_source \<Rightarrow> InputNode list \<Rightarrow> InputRoute list \<Rightarrow> adv_state \<times> nat \<Rightarrow> adv_state \<times> nat" where
  "adv_init_effect rnd inputNodes inputRoutes sk =
     (case sk of (st, k) \<Rightarrow>
        if length inputNodes = 0 then (st, k)
        else (let (nodes, k1) = newCanvasNodes rnd inputNodes k;
                  routes = newCanvasRoutes nodes inputRoutes
              in (st\<lparr>canvasNodes := nodes, canvasRoutes := routes\<rparr>, k1)))"

text \<open>The effects "Update node selection state" and "Update route highlight state".\<close>

definition update_node_selection :: "adv_state \<Rightarrow> adv_state" where
  "update_node_selection st =
     st\<lparr>canvasNodes :=
          map (\<lambda>node. node\<lparr>cn_isSelected := (Some (cn_id node) = selectedNodeId st),
                            cn_isHovered := (Some (cn_id node) = hoveredNodeId st)\<rparr>)
              (canvasNodes st)\<rparr>"

definition update_route_highlight :: "adv_state \<Rightarrow> adv_state" where
  "update_route_highlight st =
     st\<lparr>canvasRoutes :=
          map (\<lambda>route. route\<lparr>cr_isHighlighted := (Some (cr_id route) = selectedRouteId st)\<rparr>)
              (canvasRoutes st)\<rparr>"

text \<open>
  After a handler has changed the state from \<open>prev\<close> to \<open>st\<close>, the component renders
  again and each of the two effects runs if one of its dependencies has changed.
\<close>

definition adv_effects :: "adv_state \<Rightarrow> adv_state \<Rightarrow> adv_state" where
  "adv_effects prev st =
     (let st1 = (if selectedNodeId st \<noteq> selectedNodeId prev \<or> hoveredNodeId st \<noteq> hoveredNodeId prev
                 then update_node_selection st else st)
      in if selectedRouteId st \<noteq> selectedRouteId prev then update_route_highlight st1 else st1)"

text \<open>On mount every effect runs once, in the order of the source.\<close>

definition adv_mount :: "random_source \<Rightarrow> InputNode list \<Rightarrow> InputRoute list \<Rightarrow> nat \<Rightarrow> adv_state \<times> nat" where
  "adv_mount rnd inputNodes inputRoutes k =
     (case adv_init_effect rnd inputNodes inputRoutes (adv_initial, k) of
        (st, k1) \<Rightarrow> (update_route_highlight (update_node_selection st), k1))"

definition adv_handleNodeClick :: "string \<Rightarrow> adv_state \<Rightarrow> adv_state" where
  "adv_handleNodeClick nodeId st =
     st\<lparr>selectedNodeId := (if selectedNodeId st = Some nodeId then None else Some nodeId),
        selectedRouteId := None\<rparr>"

definition adv_handleNodeHover :: "string option \<Rightarrow> adv_state \<Rightarrow> adv_state" where
  "adv_handleNodeHover nodeId st = st\<lparr>hoveredNodeId := nodeId\<rparr>"

definition adv_handleCanvasClick :: "jsnum \<Rightarrow> jsnum \<Rightarrow> adv_state \<Rightarrow> adv_state" where
  "adv_handleCanvasClick x y st = st\<lparr>selectedNodeId := None, selectedRouteId := None\<rparr>"

definition adv_handleRouteSelect :: "string \<Rightarrow> adv_state \<Rightarrow> adv_state" where
  "adv_handleRouteSelect routeId st =
     st\<lparr>selectedRouteId := (if selectedRouteId st = Some routeId then None else Some routeId),
        selectedNodeId := None\<rparr>"

definition adv_handleZoomIn :: "adv_state \<Rightarrow> adv_state" where
  "adv_handleZoomIn st = st\<lparr>zoom := Math_min [zoom st * Fin 1.2, Fin 3]\<rparr>"

definition adv_handleZoomOut :: "adv_state \<Rightarrow> adv_state" where
  "adv_handleZoomOut st = st\<lparr>zoom := Math_max [zoom st / Fin 1.2, Fin 0.3]\<rparr>"

definition adv_handleReset :: "adv_state \<Rightarrow> adv_state" where
  "adv_handleReset st =
     st\<lparr>zoom := Fin 1, pan := (Fin 0, Fin 0), selectedNodeId := None, selectedRouteId := None,
        hoveredNodeId := None\<rparr>"

section \<open>NetworkCanvasRenderer: pointer events\<close>

text \<open>
  A mouse event and the bounding rectangle of the canvas. \<open>None\<close> for the rectangle is
  \<open>canvasRef.current\<close> being null, on which every handler returns at once.
\<close>

record MouseEvent =
  clientX :: jsnum
  clientY :: jsnum

record DOMRect =
  rect_left :: jsnum
  rect_top :: jsnum

text \<open>
  The predicate of \<open>nodes.find\<close> in the handlers of both components: the point \<open>(x, y)\<close>
  is within \<open>radius\<close> of the centre \<open>(nx, ny)\<close>.
\<close>

definition within_radius :: "jsnum \<Rightarrow> jsnum \<Rightarrow> jsnum \<Rightarrow> jsnum \<Rightarrow> jsnum \<Rightarrow> bool" where
  "within_radius x y nx ny radius =
     (let dx = x - nx; dy = y - ny in Math_sqrt (dx * dx + dy * dy) \<le> radius)"

text \<open>
  The callbacks of the renderer. \<open>AdvancedNetworkTopology\<close>, its only user, passes the
  three of them, so the tests \<open>if (onNodeHover)\<close>, \<open>&& onNodeClick\<close> and
  \<open>if (onCanvasClick)\<close> succeed; a handler returns the call it makes.
\<close>

datatype canvas_callback =
  onNodeClick string
| onNodeHover "string option"
| onCanvasClick jsnum jsnum

definition renderer_handleMouseMove ::
  "DOMRect option \<Rightarrow> CanvasNode list \<Rightarrow> jsnum \<Rightarrow> jsnum \<times> jsnum \<Rightarrow> MouseEvent \<Rightarrow> canvas_callback option" where
  "renderer_handleMouseMove canvas nodes z p e =
     (case canvas of
        None \<Rightarrow> None
      | Some rect \<Rightarrow>
          (let x = (clientX e - rect_left rect - fst p) / z;
               y = (clientY e - rect_top rect - snd p) / z;
               hoveredNode = find (\<lambda>node. within_radius x y (cn_x node) (cn_y node) (cn_radius node)) nodes
           in Some (onNodeHover (case hoveredNode of Some node \<Rightarrow> Some (cn_id node) | None \<Rightarrow> None))))"

definition renderer_handleClick ::
  "DOMRect option \<Rightarrow> CanvasNode list \<Rightarrow> jsnum \<Rightarrow> jsnum \<times> jsnum \<Rightarrow> MouseEvent \<Rightarrow> canvas_callback option" where
  "renderer_handleClick canvas nodes z p e =
     (case canvas of
        None \<Rightarrow> None
      | Some rect \<Rightarrow>
          (let x = (clientX e - rect_left rect - fst p) / z;
               y = (clientY e - rect_top rect - snd p) / z;
               clickedNode = find (\<lambda>node. within_radius x y (cn_x node) (cn_y node) (cn_radius node)) nodes
           in Some (case clickedNode of Some node \<Rightarrow> onNodeClick (cn_id node)
                                       | None \<Rightarrow> onCanvasClick x y)))"

text \<open>
  \<open>drawRoute\<close> of the renderer, up to the route line. Its first call is
  \<open>ctx.createLinearGradient(route.fromX, route.fromY, route.toX, route.toY)\<close>, whose
  parameters have the IDL type \<open>double\<close>: the canvas throws a \<open>TypeError\<close> when one of
  them is not a finite number, and the exception leaves \<open>drawRoute\<close> and \<open>draw\<close>.
  (\<open>ctx.moveTo\<close> and \<open>ctx.lineTo\<close> take \<open>unrestricted double\<close> and do nothing for such a
  value.) \<open>Inr\<close> holds the arguments of \<open>ctx.moveTo\<close> and \<open>ctx.lineTo\<close>.
\<close>

datatype canvas_error = TypeError

fun isFinite :: "jsnum \<Rightarrow> bool" where
  "isFinite (Fin a) = True"
| "isFinite _ = False"

definition renderer_drawRoute :: "CanvasRoute \<Rightarrow> canvas_error + (jsnum \<times> jsnum \<times> jsnum \<times> jsnum)" where
  "renderer_drawRoute route =
     (if isFinite (cr_fromX route) \<and> isFinite (cr_fromY route) \<and> isFinite (cr_toX route) \<and>
         isFinite (cr_toY route)
      then Inr (cr_fromX route, cr_fromY route, cr_toX route, cr_toY route)
      else Inl TypeError)"

text \<open>
  \<open>routes.forEach(route => drawRoute(ctx, route))\<close> in \<open>draw\<close>: the routes are drawn in
  order and the first exception ends the drawing, before the nodes and labels that
  \<open>draw\<close> would draw next. The component passes \<open>showRoutes ? canvasRoutes : []\<close> as
  \<open>routes\<close>.
\<close>

fun renderer_drawRoutes :: "CanvasRoute list \<Rightarrow> canvas_error + (jsnum \<times> jsnum \<times> jsnum \<times> jsnum) list" where
  "renderer_drawRoutes [] = Inr []"
| "renderer_drawRoutes (route # routes) =
     (case renderer_drawRoute route of
        Inl err \<Rightarrow> Inl err
      | Inr line \<Rightarrow>
          (case renderer_drawRoutes routes of
             Inl err \<Rightarrow> Inl err
           | Inr lines \<Rightarrow> Inr (line # lines)))"

definition adv_routes_prop :: "adv_state \<Rightarrow> CanvasRoute list" where
  "adv_routes_prop st = (if showRoutes st then canvasRoutes st else [])"



text \<open>The props \<open>onNodeClick\<close>, \<open>onNodeHover\<close> and \<open>onCanvasClick\<close> as the component wires them.\<close>

fun adv_callback :: "canvas_callback \<Rightarrow> adv_state \<Rightarrow> adv_state" where
  "adv_callback (onNodeClick nodeId) st = adv_handleNodeClick nodeId st"
| "adv_callback (onNodeHover nodeId) st = adv_handleNodeHover nodeId st"
| "adv_callback (onCanvasClick x y) st = adv_handleCanvasClick x y st"

text \<open>
  The events of the component: the two canvas events, a click on an entry of the route
  list, and the controls of the side panel.
\<close>

datatype adv_event =
  CanvasMouseMove "DOMRect option" MouseEvent
| CanvasClick "DOMRect option" MouseEvent
| RouteClick string
| ZoomIn
| ZoomOut
| Reset
| ZoomChange jsnum
| ShowLabelsChange bool
| ShowGridChange bool
| ShowRoutesChange bool

fun adv_handle :: "adv_event \<Rightarrow> adv_state \<Rightarrow> adv_state" where
  "adv_handle (CanvasMouseMove canvas e) st =
     (case renderer_handleMouseMove canvas (canvasNodes st) (zoom st) (pan st) e of
        Some cb \<Rightarrow> adv_callback cb st | None \<Rightarrow> st)"
| "adv_handle (CanvasClick canvas e) st =
     (case renderer_handleClick canvas (canvasNodes st) (zoom st) (pan st) e of
        Some cb \<Rightarrow> adv_callback cb st | None \<Rightarrow> st)"
| "adv_handle (RouteClick routeId) st = adv_handleRouteSelect routeId st"
| "adv_handle ZoomIn st = adv_handleZoomIn st"
| "adv_handle ZoomOut st = adv_handleZoomOut st"
| "adv_handle Reset st = adv_handleReset st"
| "adv_handle (ZoomChange z) st = st\<lparr>zoom := z\<rparr>"
| "adv_handle (ShowLabelsChange b) st = st\<lparr>showLabels := b\<rparr>"
| "adv_handle (ShowGridChange b) st = st\<lparr>showGrid := b\<rparr>"
| "adv_handle (ShowRoutesChange b) st = st\<lparr>showRoutes := b\<rparr>"

definition adv_step :: "adv_state \<Rightarrow> adv_event \<Rightarrow> adv_state" where
  "adv_step st ev = adv_effects st (adv_handle ev st)"

text \<open>
  The states the component can be in: the state after mount, the state after the
  input props have changed (the initialisation effect runs again, the other two do
  not), and the state after an event.
\<close>

inductive adv_reachable :: "adv_state \<Rightarrow> bool" where
  mounted: "adv_reachable (fst (adv_mount rnd inputNodes inputRoutes k))"
| new_inputs: "adv_reachable st \<Longrightarrow> adv_reachable (fst (adv_init_effect rnd inputNodes inputRoutes (st, k)))"
| event: "adv_reachable st \<Longrightarrow> adv_reachable (adv_step st ev)"

section \<open>NetworkTopologyVisualization: building the scene\<close>

abbreviation (input) topo_padding :: jsnum where
  "topo_padding \<equiv> Fin 50"

text \<open>
  The callback of \<open>inputNodes.map\<close>. This component has no branch for equal bounds:
  \<open>topo_projected_xy\<close> is the two \<open>const\<close> lines, where the quotient is computed at
  once, and only \<open>isNaN\<close> guards the result.
\<close>

definition topo_projected_xy :: "jsnum \<Rightarrow> jsnum \<Rightarrow> jsnum \<Rightarrow> jsnum \<Rightarrow> InputNode \<Rightarrow> jsnum \<times> jsnum" where
  "topo_projected_xy minLat maxLat minLng maxLng node =
     (topo_padding + ((lng node - minLng) / (maxLng - minLng)) * (canvasWidth - Fin 2 * topo_padding),
      topo_padding + ((maxLat - lat node) / (maxLat - minLat)) * (canvasHeight - Fin 2 * topo_padding))"

definition topo_networkNode ::
  "random_source \<Rightarrow> jsnum \<Rightarrow> jsnum \<Rightarrow> jsnum \<Rightarrow> jsnum \<Rightarrow> InputNode \<Rightarrow> nat \<Rightarrow> NetworkNode \<times> nat" where
  "topo_networkNode rnd minLat maxLat minLng maxLng node k =
     (let config = nodeTypeConfig (in_type node);
          (x, y) = topo_projected_xy minLat maxLat minLng maxLng node;
          (x', k1) = nan_fallback rnd (canvasWidth - Fin 2 * topo_padding) topo_padding x k;
          (y', k2) = nan_fallback rnd (canvasHeight - Fin 2 * topo_padding) topo_padding y k1
      in (\<lparr>nn_id = in_id node, nn_name = in_name node, nn_type = in_type node, nn_x = x',
           nn_y = y', nn_radius = cfg_size config, nn_color = cfg_color config,
           nn_isSelected = False, nn_isDragging = False, nn_capacity = capacity node,
           nn_production = production node, nn_district = district node\<rparr>, k2))"

definition networkNodes :: "random_source \<Rightarrow> InputNode list \<Rightarrow> nat \<Rightarrow> NetworkNode list \<times> nat" where
  "networkNodes rnd inputNodes k =
     (let latitudes = map lat inputNodes;
          longitudes = map lng inputNodes;
          minLat = Math_min latitudes;
          maxLat = Math_max latitudes;
          minLng = Math_min longitudes;
          maxLng = Math_max longitudes
      in map_drawing (topo_networkNode rnd minLat maxLat minLng maxLng) inputNodes k)"

text \<open>Every input route becomes a route of the state: no endpoint is looked up here.\<close>

definition networkRoutes :: "InputRoute list \<Rightarrow> NetworkRoute list" where
  "networkRoutes inputRoutes =
     map (\<lambda>route. \<lparr>nr_id = rt_id route, nr_fromNodeId = from_id route, nr_toNodeId = to_id route,
                    nr_distance = distance_km route, nr_cost = cost_per_trip route,
                    nr_vehicleType = vehicle_type route, nr_isActive = True,
                    nr_isHighlighted = False\<rparr>) inputRoutes"

text \<open>
  \<open>drawRoute\<close>, up to the route line: \<open>None\<close> is the return before any drawing when an
  endpoint is not found, \<open>Some (fromX, fromY, toX, toY)\<close> the arguments of
  \<open>ctx.moveTo\<close> and \<open>ctx.lineTo\<close>. The arrow head and the label drawn after the line
  are left out.
\<close>

definition topo_drawRoute :: "NetworkNode list \<Rightarrow> NetworkRoute \<Rightarrow> (jsnum \<times> jsnum \<times> jsnum \<times> jsnum) option" where
  "topo_drawRoute nodes route =
     (case (find (\<lambda>n. nn_id n = nr_fromNodeId route) nodes, find (\<lambda>n. nn_id n = nr_toNodeId route) nodes) of
        (Some fromNode, Some toNode) \<Rightarrow>
          Some (connection_points (nn_x fromNode) (nn_y fromNode) (nn_radius fromNode)
                                  (nn_x toNode) (nn_y toNode) (nn_radius toNode))
      | _ \<Rightarrow> None)"

section \<open>NetworkTopologyVisualization: state and handlers\<close>

record topo_state =
  tv_nodes :: "NetworkNode list"
  tv_routes :: "NetworkRoute list"
  tv_selectedNode :: "NetworkNode option"
  tv_selectedRoute :: "NetworkRoute option"
  tv_isDragging :: bool
  tv_dragOffset :: "jsnum \<times> jsnum"
  tv_zoom :: jsnum
  tv_pan :: "jsnum \<times> jsnum"
  tv_showLabels :: bool
  tv_showRoutes :: bool

definition topo_initial :: topo_state where
  "topo_initial =
     \<lparr>tv_nodes = [], tv_routes = [], tv_selectedNode = None, tv_selectedRoute = None,
      tv_isDragging = False, tv_dragOffset = (Fin 0, Fin 0), tv_zoom = Fin 1,
      tv_pan = (Fin 0, Fin 0), tv_showLabels = True, tv_showRoutes = True\<rparr>"

text \<open>The effect "Initialize network data", with the same early return.\<close>

definition topo_init_effect ::
  "random_source \<Rightarrow> InputNode list \<Rightarrow> InputRoute list \<Rightarrow> topo_state \<times> nat \<Rightarrow> topo_state \<times> nat" where
  "topo_init_effect rnd inputNodes inputRoutes sk =
     (case sk of (st, k) \<Rightarrow>
        if length inputNodes = 0 then (st, k)
        else (let (nodes, k1) = networkNodes rnd inputNodes k
              in (st\<lparr>tv_nodes := nodes, tv_routes := networkRoutes inputRoutes\<rparr>, k1)))"

text \<open>On mount the effect runs on the initial state.\<close>

definition topo_mount :: "random_source \<Rightarrow> InputNode list \<Rightarrow> InputRoute list \<Rightarrow> nat \<Rightarrow> topo_state \<times> nat" where
  "topo_mount rnd inputNodes inputRoutes k = topo_init_effect rnd inputNodes inputRoutes (topo_initial, k)"

text \<open>
  What \<open>drawNetwork\<close> passes to the canvas for the routes: one entry for each route of
  the state when \<open>showRoutes\<close> is on, \<open>None\<close> for a route \<open>drawRoute\<close> returned on.
\<close>

definition topo_drawn_routes :: "topo_state \<Rightarrow> (jsnum \<times> jsnum \<times> jsnum \<times> jsnum) option list" where
  "topo_drawn_routes st =
     (if tv_showRoutes st then map (topo_drawRoute (tv_nodes st)) (tv_routes st) else [])"

definition topo_getMousePos :: "DOMRect option \<Rightarrow> jsnum \<Rightarrow> jsnum \<times> jsnum \<Rightarrow> MouseEvent \<Rightarrow> jsnum \<times> jsnum" where
  "topo_getMousePos canvas z p e =
     (case canvas of
        None \<Rightarrow> (Fin 0, Fin 0)
      | Some rect \<Rightarrow> ((clientX e - rect_left rect - fst p) / z,
                      (clientY e - rect_top rect - snd p) / z))"

definition topo_handleMouseDown :: "DOMRect option \<Rightarrow> MouseEvent \<Rightarrow> topo_state \<Rightarrow> topo_state" where
  "topo_handleMouseDown canvas e st =
     (let mousePos = topo_getMousePos canvas (tv_zoom st) (tv_pan st) e;
          clickedNode = find (\<lambda>node. within_radius (fst mousePos) (snd mousePos)
                                        (nn_x node) (nn_y node) (nn_radius node)) (tv_nodes st)
      in case clickedNode of
           Some clicked \<Rightarrow>
             st\<lparr>tv_selectedNode := Some clicked,
                tv_isDragging := True,
                tv_dragOffset := (fst mousePos - nn_x clicked, snd mousePos - nn_y clicked),
                tv_nodes := map (\<lambda>node. node\<lparr>nn_isSelected := (nn_id node = nn_id clicked)\<rparr>) (tv_nodes st)\<rparr>
         | None \<Rightarrow>
             st\<lparr>tv_selectedNode := None,
                tv_nodes := map (\<lambda>node. node\<lparr>nn_isSelected := False\<rparr>) (tv_nodes st)\<rparr>)"

definition topo_handleMouseMove :: "DOMRect option \<Rightarrow> MouseEvent \<Rightarrow> topo_state \<Rightarrow> topo_state" where
  "topo_handleMouseMove canvas e st =
     (case tv_selectedNode st of
        None \<Rightarrow> st
      | Some selected \<Rightarrow>
          if \<not> tv_isDragging st then st
          else (let mousePos = topo_getMousePos canvas (tv_zoom st) (tv_pan st) e;
                    newX = fst mousePos - fst (tv_dragOffset st);
                    newY = snd mousePos - snd (tv_dragOffset st)
                in st\<lparr>tv_nodes := map (\<lambda>node. if nn_id node = nn_id selected
                                                 then node\<lparr>nn_x := newX, nn_y := newY\<rparr> else node)
                                       (tv_nodes st)\<rparr>))"

definition topo_handleMouseUp :: "topo_state \<Rightarrow> topo_state" where
  "topo_handleMouseUp st = st\<lparr>tv_isDragging := False\<rparr>"

definition topo_handleRouteHover :: "string \<Rightarrow> bool \<Rightarrow> topo_state \<Rightarrow> topo_state" where
  "topo_handleRouteHover routeId isHovering st =
     st\<lparr>tv_routes := map (\<lambda>route. route\<lparr>nr_isHighlighted := (if nr_id route = routeId then isHovering else False)\<rparr>)
                         (tv_routes st)\<rparr>"

definition topo_handleRouteSelect :: "NetworkRoute \<Rightarrow> topo_state \<Rightarrow> topo_state" where
  "topo_handleRouteSelect route st =
     topo_handleRouteHover (nr_id route) True (st\<lparr>tv_selectedRoute := Some route\<rparr>)"

definition topo_handleZoomIn :: "topo_state \<Rightarrow> topo_state" where
  "topo_handleZoomIn st = st\<lparr>tv_zoom := Math_min [tv_zoom st * Fin 1.2, Fin 3]\<rparr>"

definition topo_handleZoomOut :: "topo_state \<Rightarrow> topo_state" where
  "topo_handleZoomOut st = st\<lparr>tv_zoom := Math_max [tv_zoom st / Fin 1.2, Fin 0.3]\<rparr>"

definition topo_handleReset :: "topo_state \<Rightarrow> topo_state" where
  "topo_handleReset st =
     st\<lparr>tv_zoom := Fin 1, tv_pan := (Fin 0, Fin 0), tv_selectedNode := None,
        tv_selectedRoute := None,
        tv_nodes := map (\<lambda>node. node\<lparr>nn_isSelected := False\<rparr>) (tv_nodes st),
        tv_routes := map (\<lambda>route. route\<lparr>nr_isHighlighted := False\<rparr>) (tv_routes st)\<rparr>"

section \<open>Example inputs\<close>

text \<open>
  A random source that always returns one half, and a small network: two farms at the
  same place, a third farm a little to the east of them, and a plant to the north-east.
\<close>

definition ex_rnd :: random_source where
  "ex_rnd k = 1 / 2"

definition ex_farm_a :: InputNode where
  "ex_farm_a = \<lparr>in_id = ''a'', in_name = ''Farm A'', in_type = ''farm'', lat = Fin 0, lng = Fin 0,
                 capacity = None, production = None, district = None\<rparr>"

definition ex_farm_c :: InputNode where
  "ex_farm_c = \<lparr>in_id = ''c'', in_name = ''Farm C'', in_type = ''farm'', lat = Fin 0, lng = Fin 0,
                 capacity = None, production = None, district = None\<rparr>"

definition ex_farm_d :: InputNode where
  "ex_farm_d = \<lparr>in_id = ''d'', in_name = ''Farm D'', in_type = ''farm'', lat = Fin 0, lng = Fin (1 / 68),
                 capacity = None, production = None, district = None\<rparr>"

definition ex_plant_b :: InputNode where
  "ex_plant_b = \<lparr>in_id = ''b'', in_name = ''Plant B'', in_type = ''processing_plant'', lat = Fin 1,
                  lng = Fin 1, capacity = Some (Fin 5000), production = None, district = None\<rparr>"

text \<open>A record with a latitude and a longitude that are not finite numbers.\<close>

definition ex_bad_node :: InputNode where
  "ex_bad_node = \<lparr>in_id = ''x'', in_name = ''Nowhere'', in_type = ''depot'', lat = NaN, lng = PInf,
                   capacity = None, production = None, district = None\<rparr>"

definition ex_route :: "string \<Rightarrow> string \<Rightarrow> string \<Rightarrow> InputRoute" where
  "ex_route i f t = \<lparr>rt_id = i, from_id = f, to_id = t, distance_km = Fin 12,
                      cost_per_trip = Fin 300, vehicle_type = ''truck''\<rparr>"

definition ex_event :: "real \<Rightarrow> real \<Rightarrow> MouseEvent" where
  "ex_event x y = \<lparr>clientX = Fin x, clientY = Fin y\<rparr>"

definition ex_rect :: DOMRect where
  "ex_rect = \<lparr>rect_left = Fin 0, rect_top = Fin 0\<rparr>"

text \<open>
  States of the two components on the farm and the plant with one route between them:
  after mount, and after a press on the farm (at its centre, \<open>(60, 540)\<close> in the first
  component and \<open>(50, 550)\<close> in the second).
\<close>

definition ex_adv_mounted :: adv_state where
  "ex_adv_mounted = fst (adv_mount ex_rnd [ex_farm_a, ex_plant_b] [ex_route ''r1'' ''a'' ''b''] 0)"

definition ex_adv_selected :: adv_state where
  "ex_adv_selected = adv_step ex_adv_mounted (CanvasClick (Some ex_rect) (ex_event 60 540))"

definition ex_topo_mounted :: topo_state where
  "ex_topo_mounted = fst (topo_mount ex_rnd [ex_farm_a, ex_plant_b] [ex_route ''r1'' ''a'' ''b''] 0)"

definition ex_topo_pressed :: topo_state where
  "ex_topo_pressed = topo_handleMouseDown (Some ex_rect) (ex_event 50 550) ex_topo_mounted"

text \<open>
  The scene of the first component for the four nodes. The two farms at the same place
  coincide at \<open>(60, 540)\<close> and the third farm lies at \<open>(70, 540)\<close>, inside their circles of
  radius 25.
\<close>

definition ex_close_nodes :: "CanvasNode list" where
  "ex_close_nodes = fst (newCanvasNodes ex_rnd [ex_farm_a, ex_farm_c, ex_farm_d, ex_plant_b] 0)"

section \<open>Evaluation of the examples\<close>

lemmas ex_defs = ex_rnd_def ex_farm_a_def ex_farm_c_def ex_farm_d_def ex_plant_b_def ex_route_def
  ex_event_def ex_rect_def ex_adv_mounted_def ex_adv_selected_def ex_topo_mounted_def
  ex_topo_pressed_def ex_close_nodes_def ex_bad_node_def

lemmas num_defs = minus_jsnum_def Math_min_def Math_max_def min2_def max2_def strict_eq_def

lemmas scene_defs = newCanvasNodes_def adv_canvasNode_def adv_projected_xy_def nan_fallback_def
  Math_random_def nodeTypeConfig_def networkNodes_def topo_networkNode_def topo_projected_xy_def
  networkRoutes_def newCanvasRoutes_def adv_canvasRoute_def connection_points_def
  topo_drawRoute_def List.map_filter_def

lemmas adv_defs = adv_mount_def adv_init_effect_def adv_initial_def update_node_selection_def
  update_route_highlight_def adv_step_def adv_effects_def adv_handleNodeClick_def
  adv_handleNodeHover_def adv_handleCanvasClick_def adv_handleRouteSelect_def
  adv_handleZoomIn_def adv_handleZoomOut_def adv_handleReset_def renderer_handleMouseMove_def
  renderer_handleClick_def within_radius_def

lemmas topo_defs = topo_mount_def topo_init_effect_def topo_initial_def topo_getMousePos_def
  topo_handleMouseDown_def topo_handleMouseMove_def topo_handleMouseUp_def
  topo_handleRouteHover_def topo_handleRouteSelect_def topo_handleReset_def
  topo_drawn_routes_def within_radius_def

lemma unit_interval_ex_rnd: "unit_interval ex_rnd"
  by (simp add: unit_interval_def ex_rnd_def)

lemma sqrt_le_iff_square: "0 \<le> b \<Longrightarrow> (sqrt a \<le> b) = (a \<le> b * b)"
proof -
  assume b: "0 \<le> b"
  have "sqrt a \<le> b \<longleftrightarrow> sqrt a \<le> sqrt (b * b)" using b by simp
  also have "\<dots> \<longleftrightarrow> a \<le> b * b" by (rule real_sqrt_le_iff)
  finally show ?thesis .
qed

section \<open>Lists built while drawing random numbers\<close>

lemma fst_map_drawing_Cons:
  "fst (map_drawing f (a # as) k) = fst (f a k) # fst (map_drawing f as (snd (f a k)))"
  by (simp add: split_beta)

lemma map_drawing_all:
  "(\<And>a k. a \<in> set as \<Longrightarrow> P (fst (f a k))) \<Longrightarrow> \<forall>b \<in> set (fst (map_drawing f as k)). P b"
proof (induction as arbitrary: k)
  case Nil
  show ?case by simp
next
  case (Cons a as)
  have "P (fst (f a k))" using Cons.prems[of a k] by simp
  moreover have "\<forall>b \<in> set (fst (map_drawing f as (snd (f a k)))). P b"
    using Cons.IH[of "snd (f a k)"] Cons.prems by simp
  ultimately show ?case by (simp only: fst_map_drawing_Cons) simp
qed

lemma map_drawing_map:
  "(\<And>a k. a \<in> set as \<Longrightarrow> g (fst (f a k)) = h a) \<Longrightarrow> map g (fst (map_drawing f as k)) = map h as"
proof (induction as arbitrary: k)
  case Nil
  show ?case by simp
next
  case (Cons a as)
  have "g (fst (f a k)) = h a" using Cons.prems[of a k] by simp
  moreover have "map g (fst (map_drawing f as (snd (f a k)))) = map h as"
    using Cons.IH[of "snd (f a k)"] Cons.prems by simp
  ultimately show ?case by (simp only: fst_map_drawing_Cons) simp
qed


section \<open>Selection and reset\<close>

lemma adv_effects_fields [simp]:
  "selectedNodeId (adv_effects prev st) = selectedNodeId st"
  "selectedRouteId (adv_effects prev st) = selectedRouteId st"
  "hoveredNodeId (adv_effects prev st) = hoveredNodeId st"
  "zoom (adv_effects prev st) = zoom st"
  "pan (adv_effects prev st) = pan st"
  "showLabels (adv_effects prev st) = showLabels st"
  "showGrid (adv_effects prev st) = showGrid st"
  "showRoutes (adv_effects prev st) = showRoutes st"
  by (simp_all add: adv_effects_def update_node_selection_def update_route_highlight_def Let_def)

lemma adv_init_effect_ids [simp]:
  "selectedNodeId (fst (adv_init_effect rnd ns rs (st, k))) = selectedNodeId st"
  "selectedRouteId (fst (adv_init_effect rnd ns rs (st, k))) = selectedRouteId st"
  "hoveredNodeId (fst (adv_init_effect rnd ns rs (st, k))) = hoveredNodeId st"
  by (simp_all add: adv_init_effect_def Let_def split: prod.splits)

lemma adv_mount_ids [simp]:
  "selectedNodeId (fst (adv_mount rnd ns rs k)) = None"
  "selectedRouteId (fst (adv_mount rnd ns rs k)) = None"
  "hoveredNodeId (fst (adv_mount rnd ns rs k)) = None"
  by (simp_all add: adv_mount_def adv_init_effect_def adv_initial_def Let_def
      update_node_selection_def update_route_highlight_def split: prod.splits)

lemma adv_handle_scene [simp]:
  "canvasNodes (adv_handle ev st) = canvasNodes st"
  "canvasRoutes (adv_handle ev st) = canvasRoutes st"
  by (cases ev;
      simp add: renderer_handleMouseMove_def renderer_handleClick_def Let_def
                adv_handleNodeClick_def adv_handleNodeHover_def adv_handleCanvasClick_def
                adv_handleRouteSelect_def adv_handleZoomIn_def adv_handleZoomOut_def
                adv_handleReset_def
           split: option.splits)+

lemma adv_handle_exclusive:
  "selectedNodeId st = None \<or> selectedRouteId st = None \<Longrightarrow>
   selectedNodeId (adv_handle ev st) = None \<or> selectedRouteId (adv_handle ev st) = None"
  by (cases ev)
     (auto simp: renderer_handleMouseMove_def renderer_handleClick_def Let_def
                 adv_handleNodeClick_def adv_handleNodeHover_def adv_handleCanvasClick_def
                 adv_handleRouteSelect_def adv_handleZoomIn_def adv_handleZoomOut_def
                 adv_handleReset_def
           split: option.splits)

lemma adv_reachable_exclusive:
  "adv_reachable st \<Longrightarrow> selectedNodeId st = None \<or> selectedRouteId st = None"
proof (induction rule: adv_reachable.induct)
  case (mounted rnd inputNodes inputRoutes k)
  show ?case by simp
next
  case (new_inputs st rnd inputNodes inputRoutes k)
  then show ?case by simp
next
  case (event st ev)
  then show ?case using adv_handle_exclusive[of st ev] by (simp add: adv_step_def)
qed

lemma adv_reachable_foldl:
  "adv_reachable st \<Longrightarrow> adv_reachable (foldl adv_step st evs)"
  by (induction evs arbitrary: st) (auto intro: adv_reachable.event)

lemma newCanvasNodes_flags:
  "\<forall>n \<in> set (fst (newCanvasNodes rnd ns k)). \<not> cn_isSelected n \<and> \<not> cn_isHovered n"
  unfolding newCanvasNodes_def Let_def
  by (rule map_drawing_all) (simp add: adv_canvasNode_def Let_def split: prod.splits)

lemma newCanvasRoutes_flags:
  "\<forall>r \<in> set (newCanvasRoutes nodes rs). \<not> cr_isHighlighted r"
  by (auto simp: newCanvasRoutes_def List.map_filter_def adv_canvasRoute_def Let_def
           split: option.splits prod.splits)

text \<open>
  The flags of the scene follow the selection: with no node selected or hovered no
  node carries a flag, and with no route selected no route is highlighted.
\<close>

lemma adv_reachable_flags:
  "adv_reachable st \<Longrightarrow>
     (selectedNodeId st = None \<and> hoveredNodeId st = None \<longrightarrow>
        (\<forall>n \<in> set (canvasNodes st). \<not> cn_isSelected n \<and> \<not> cn_isHovered n)) \<and>
     (selectedRouteId st = None \<longrightarrow> (\<forall>r \<in> set (canvasRoutes st). \<not> cr_isHighlighted r))"
proof (induction rule: adv_reachable.induct)
  case (mounted rnd inputNodes inputRoutes k)
  show ?case
    by (simp add: adv_mount_def adv_init_effect_def adv_initial_def Let_def
        update_node_selection_def update_route_highlight_def split: prod.splits)
next
  case (new_inputs st rnd inputNodes inputRoutes k)
  show ?case
  proof (cases "inputNodes = []")
    case True
    then show ?thesis using new_inputs.IH by (simp add: adv_init_effect_def)
  next
    case False
    obtain nodes k1 where n: "newCanvasNodes rnd inputNodes k = (nodes, k1)"
      by (cases "newCanvasNodes rnd inputNodes k")
    have "\<forall>n \<in> set nodes. \<not> cn_isSelected n \<and> \<not> cn_isHovered n"
      using newCanvasNodes_flags[of rnd inputNodes k] n by simp
    then show ?thesis
      using False n newCanvasRoutes_flags[of nodes inputRoutes]
      by (simp add: adv_init_effect_def)
  qed
next
  case (event st ev)
  then show ?case
    by (auto simp: adv_step_def adv_effects_def update_node_selection_def
                   update_route_highlight_def Let_def)
qed

text \<open>
  With no input node the initialisation effects change nothing: a scene built from
  earlier props stays in place.
\<close>

lemma init_effect_empty_unchanged:
  "adv_init_effect rnd [] inputRoutes (st, k) = (st, k)"
  "topo_init_effect rnd [] inputRoutes (tst, k) = (tst, k)"
  by (simp_all add: adv_init_effect_def topo_init_effect_def)

text \<open>
  C1, as the claim states it, fails in \<open>NetworkTopologyVisualization\<close>: after the route
  of the example is selected in the list and the farm is pressed on the canvas, a node
  and a route are selected at once.
\<close>

theorem topo_selection_not_exclusive:
  "map_option nn_id (tv_selectedNode
     (topo_handleMouseDown (Some ex_rect) (ex_event 50 550)
        (topo_handleRouteSelect (hd (tv_routes ex_topo_mounted)) ex_topo_mounted))) = Some ''a'' \<and>
   map_option nr_id (tv_selectedRoute
     (topo_handleMouseDown (Some ex_rect) (ex_event 50 550)
        (topo_handleRouteSelect (hd (tv_routes ex_topo_mounted)) ex_topo_mounted))) = Some ''r1''"
  by (simp add: ex_defs scene_defs num_defs topo_defs Let_def)

text \<open>
  C1, amended. In \<open>AdvancedNetworkTopology\<close> selection is exclusive: a click on the
  canvas (on a node or not) leaves no route selected, a click on a route of the list
  leaves no node selected, and in every state the component can reach, in particular
  after every sequence of events from mount, a node and a route are never selected
  together. In \<open>NetworkTopologyVisualization\<close> a press on the canvas leaves the selected
  route as it was and the selection of a route leaves the selected node as it was.
\<close>

theorem selection_exclusive:
  "selectedRouteId (adv_step st (CanvasClick (Some rect) e)) = None \<and>
   selectedNodeId (adv_step st (RouteClick routeId)) = None \<and>
   (adv_reachable st \<longrightarrow> selectedNodeId st = None \<or> selectedRouteId st = None) \<and>
   (selectedNodeId (foldl adv_step (fst (adv_mount rnd inputNodes inputRoutes k)) evs) = None \<or>
    selectedRouteId (foldl adv_step (fst (adv_mount rnd inputNodes inputRoutes k)) evs) = None) \<and>
   tv_selectedRoute (topo_handleMouseDown canvas e tst) = tv_selectedRoute tst \<and>
   tv_selectedNode (topo_handleRouteSelect route tst) = tv_selectedNode tst"
proof -
  have click: "selectedRouteId (adv_step st (CanvasClick (Some rect) e)) = None"
    by (simp add: adv_step_def renderer_handleClick_def Let_def adv_handleNodeClick_def
        adv_handleCanvasClick_def split: option.splits)
  have route: "selectedNodeId (adv_step st (RouteClick routeId)) = None"
    by (simp add: adv_step_def adv_handleRouteSelect_def)
  have "adv_reachable (foldl adv_step (fst (adv_mount rnd inputNodes inputRoutes k)) evs)"
    by (rule adv_reachable_foldl) (rule adv_reachable.mounted)
  then have run:
    "selectedNodeId (foldl adv_step (fst (adv_mount rnd inputNodes inputRoutes k)) evs) = None \<or>
     selectedRouteId (foldl adv_step (fst (adv_mount rnd inputNodes inputRoutes k)) evs) = None"
    by (rule adv_reachable_exclusive)
  have down: "tv_selectedRoute (topo_handleMouseDown canvas e tst) = tv_selectedRoute tst"
    by (simp add: topo_handleMouseDown_def Let_def split: option.splits)
  have sel: "tv_selectedNode (topo_handleRouteSelect route tst) = tv_selectedNode tst"
    by (simp add: topo_handleRouteSelect_def topo_handleRouteHover_def)
  show ?thesis
    by (intro conjI impI adv_reachable_exclusive click route run down sel)
qed

lemma ex_adv_selected_reachable: "adv_reachable ex_adv_selected"
  unfolding ex_adv_selected_def ex_adv_mounted_def
  by (rule adv_reachable.event) (rule adv_reachable.mounted)

lemma ex_adv_selected_ids:
  "selectedNodeId ex_adv_selected = Some ''a''" "selectedRouteId ex_adv_selected = None"
  "hoveredNodeId ex_adv_selected = None"
  by (simp_all add: ex_defs scene_defs num_defs adv_defs Let_def)

theorem selection_exclusive_witness:
  "adv_reachable ex_adv_selected \<and> selectedNodeId ex_adv_selected = Some ''a'' \<and>
   selectedRouteId ex_adv_selected = None \<and>
   selectedNodeId (adv_step ex_adv_selected (RouteClick ''r1'')) = None \<and>
   selectedRouteId (adv_step ex_adv_selected (RouteClick ''r1'')) = Some ''r1'' \<and>
   selectedRouteId (adv_step (adv_step ex_adv_selected (RouteClick ''r1''))
                             (CanvasClick (Some ex_rect) (ex_event 740 60))) = None"
  using selection_exclusive[where st = "adv_step ex_adv_selected (RouteClick ''r1'')"
          and rect = ex_rect and e = "ex_event 740 60" and routeId = "''r1''" and rnd = ex_rnd
          and inputNodes = "[]" and inputRoutes = "[]" and k = 0 and evs = "[]" and canvas = None
          and tst = topo_initial and route = "hd (tv_routes ex_topo_mounted)"]
        selection_exclusive[where st = ex_adv_selected
          and rect = ex_rect and e = "ex_event 740 60" and routeId = "''r1''" and rnd = ex_rnd
          and inputNodes = "[]" and inputRoutes = "[]" and k = 0 and evs = "[]" and canvas = None
          and tst = topo_initial and route = "hd (tv_routes ex_topo_mounted)"]
        ex_adv_selected_reachable ex_adv_selected_ids
  by (simp add: adv_step_def adv_handleRouteSelect_def)

lemma ex_adv_mounted_fields:
  "canvasNodes ex_adv_mounted =
     [\<lparr>cn_id = ''a'', cn_name = ''Farm A'', cn_x = Fin 60, cn_y = Fin 540, cn_radius = Fin 25,
       cn_color = ''#10B981'', cn_type = ''farm'', cn_isSelected = False, cn_isHovered = False\<rparr>,
      \<lparr>cn_id = ''b'', cn_name = ''Plant B'', cn_x = Fin 740, cn_y = Fin 60, cn_radius = Fin 35,
       cn_color = ''#8B5CF6'', cn_type = ''processing_plant'', cn_isSelected = False,
       cn_isHovered = False\<rparr>]"
  "selectedNodeId ex_adv_mounted = None" "selectedRouteId ex_adv_mounted = None"
  "hoveredNodeId ex_adv_mounted = None" "zoom ex_adv_mounted = Fin 1"
  "pan ex_adv_mounted = (Fin 0, Fin 0)"
  by (simp_all add: ex_defs scene_defs num_defs adv_defs Let_def)

lemma ex_adv_selected_fields:
  "canvasNodes ex_adv_selected =
     [\<lparr>cn_id = ''a'', cn_name = ''Farm A'', cn_x = Fin 60, cn_y = Fin 540, cn_radius = Fin 25,
       cn_color = ''#10B981'', cn_type = ''farm'', cn_isSelected = True, cn_isHovered = False\<rparr>,
      \<lparr>cn_id = ''b'', cn_name = ''Plant B'', cn_x = Fin 740, cn_y = Fin 60, cn_radius = Fin 35,
       cn_color = ''#8B5CF6'', cn_type = ''processing_plant'', cn_isSelected = False,
       cn_isHovered = False\<rparr>]"
  "selectedNodeId ex_adv_selected = Some ''a''" "selectedRouteId ex_adv_selected = None"
  "hoveredNodeId ex_adv_selected = None" "zoom ex_adv_selected = Fin 1"
  "pan ex_adv_selected = (Fin 0, Fin 0)"
  unfolding ex_adv_selected_def
  by (simp_all add: ex_adv_mounted_fields adv_step_def adv_effects_def renderer_handleClick_def
      within_radius_def update_node_selection_def update_route_highlight_def
      adv_handleNodeClick_def adv_handleCanvasClick_def ex_event_def ex_rect_def
      minus_jsnum_def Let_def)

lemma ex_topo_mounted_fields:
  "tv_nodes ex_topo_mounted =
     [\<lparr>nn_id = ''a'', nn_name = ''Farm A'', nn_type = ''farm'', nn_x = Fin 50, nn_y = Fin 550,
       nn_radius = Fin 25, nn_color = ''#10B981'', nn_isSelected = False, nn_isDragging = False,
       nn_capacity = None, nn_production = None, nn_district = None\<rparr>,
      \<lparr>nn_id = ''b'', nn_name = ''Plant B'', nn_type = ''processing_plant'', nn_x = Fin 750,
       nn_y = Fin 50, nn_radius = Fin 35, nn_color = ''#8B5CF6'', nn_isSelected = False,
       nn_isDragging = False, nn_capacity = Some (Fin 5000), nn_production = None,
       nn_district = None\<rparr>]"
  "tv_routes ex_topo_mounted =
     [\<lparr>nr_id = ''r1'', nr_fromNodeId = ''a'', nr_toNodeId = ''b'', nr_distance = Fin 12,
       nr_cost = Fin 300, nr_vehicleType = ''truck'', nr_isActive = True,
       nr_isHighlighted = False\<rparr>]"
  "tv_selectedNode ex_topo_mounted = None" "tv_selectedRoute ex_topo_mounted = None"
  "tv_zoom ex_topo_mounted = Fin 1" "tv_pan ex_topo_mounted = (Fin 0, Fin 0)"
  by (simp_all add: ex_defs scene_defs num_defs topo_defs Let_def)

lemma ex_topo_pressed_fields:
  "tv_nodes ex_topo_pressed =
     [\<lparr>nn_id = ''a'', nn_name = ''Farm A'', nn_type = ''farm'', nn_x = Fin 50, nn_y = Fin 550,
       nn_radius = Fin 25, nn_color = ''#10B981'', nn_isSelected = True, nn_isDragging = False,
       nn_capacity = None, nn_production = None, nn_district = None\<rparr>,
      \<lparr>nn_id = ''b'', nn_name = ''Plant B'', nn_type = ''processing_plant'', nn_x = Fin 750,
       nn_y = Fin 50, nn_radius = Fin 35, nn_color = ''#8B5CF6'', nn_isSelected = False,
       nn_isDragging = False, nn_capacity = Some (Fin 5000), nn_production = None,
       nn_district = None\<rparr>]"
  "map_option nn_id (tv_selectedNode ex_topo_pressed) = Some ''a''"
  "tv_selectedRoute ex_topo_pressed = None" "tv_isDragging ex_topo_pressed"
  "tv_dragOffset ex_topo_pressed = (Fin 0, Fin 0)"
  "tv_zoom ex_topo_pressed = Fin 1" "tv_pan ex_topo_pressed = (Fin 0, Fin 0)"
  unfolding ex_topo_pressed_def
  by (simp_all add: ex_topo_mounted_fields topo_handleMouseDown_def topo_getMousePos_def
      within_radius_def ex_event_def ex_rect_def minus_jsnum_def Let_def)

text \<open>
  C7, as the claim states it, fails in \<open>NetworkTopologyVisualization\<close>: a second press on
  the farm, which the first press has selected, leaves it selected.
\<close>


theorem topo_press_selected_node_stays_selected:
  "map_option nn_id (tv_selectedNode ex_topo_pressed) = Some ''a'' \<and>
   map_option nn_id (tv_selectedNode
     (topo_handleMouseDown (Some ex_rect) (ex_event 50 550) ex_topo_pressed)) = Some ''a''"
  by (simp add: ex_topo_pressed_fields topo_handleMouseDown_def topo_getMousePos_def
      within_radius_def ex_event_def ex_rect_def minus_jsnum_def Let_def)

text \<open>
  C7, amended. In \<open>AdvancedNetworkTopology\<close> with its renderer, a click that hits a node
  toggles the selection (the selected node is deselected, another node becomes the
  selected one) and clears the route selection; a click that hits no node clears both.
  In \<open>NetworkTopologyVisualization\<close> a press that hits a node makes it the selected
  node, selected before or not, and a press that hits no node clears the node
  selection; the route selection is not touched.
\<close>

theorem click_selection:
  assumes "hit = find (\<lambda>node. within_radius ((clientX e - rect_left rect - fst (pan st)) / zoom st)
                                ((clientY e - rect_top rect - snd (pan st)) / zoom st)
                                (cn_x node) (cn_y node) (cn_radius node)) (canvasNodes st)"
    and "thit = find (\<lambda>node. within_radius ((clientX e - rect_left rect - fst (tv_pan tst)) / tv_zoom tst)
                                ((clientY e - rect_top rect - snd (tv_pan tst)) / tv_zoom tst)
                                (nn_x node) (nn_y node) (nn_radius node)) (tv_nodes tst)"
  shows "(\<forall>node. hit = Some node \<longrightarrow>
            selectedNodeId (adv_step st (CanvasClick (Some rect) e)) =
              (if selectedNodeId st = Some (cn_id node) then None else Some (cn_id node)) \<and>
            selectedRouteId (adv_step st (CanvasClick (Some rect) e)) = None) \<and>
         (hit = None \<longrightarrow>
            selectedNodeId (adv_step st (CanvasClick (Some rect) e)) = None \<and>
            selectedRouteId (adv_step st (CanvasClick (Some rect) e)) = None) \<and>
         tv_selectedNode (topo_handleMouseDown (Some rect) e tst) = thit \<and>
         tv_selectedRoute (topo_handleMouseDown (Some rect) e tst) = tv_selectedRoute tst"
proof -
  have adv: "adv_handle (CanvasClick (Some rect) e) st =
               (case hit of Some node \<Rightarrow> adv_handleNodeClick (cn_id node) st
                          | None \<Rightarrow> adv_handleCanvasClick
                                      ((clientX e - rect_left rect - fst (pan st)) / zoom st)
                                      ((clientY e - rect_top rect - snd (pan st)) / zoom st) st)"
    using assms(1) by (simp add: renderer_handleClick_def Let_def split: option.splits)
  have topo: "tv_selectedNode (topo_handleMouseDown (Some rect) e tst) = thit"
    using assms(2) by (simp add: topo_handleMouseDown_def topo_getMousePos_def Let_def split: option.splits)
  have route: "tv_selectedRoute (topo_handleMouseDown (Some rect) e tst) = tv_selectedRoute tst"
    by (simp add: topo_handleMouseDown_def Let_def split: option.splits)
  show ?thesis
    using topo route
    by (simp add: adv_step_def adv adv_handleNodeClick_def adv_handleCanvasClick_def
             del: adv_handle.simps)
qed

theorem click_selection_witness:
  "selectedNodeId ex_adv_selected = Some ''a'' \<and>
   selectedNodeId (adv_step ex_adv_selected (CanvasClick (Some ex_rect) (ex_event 60 540))) = None \<and>
   selectedNodeId (adv_step ex_adv_selected (CanvasClick (Some ex_rect) (ex_event 740 60))) = Some ''b'' \<and>
   selectedNodeId (adv_step ex_adv_selected (CanvasClick (Some ex_rect) (ex_event 400 300))) = None \<and>
   tv_selectedNode (topo_handleMouseDown (Some ex_rect) (ex_event 400 300) ex_topo_pressed) = None"
  using click_selection[where st = ex_adv_selected and tst = ex_topo_pressed and rect = ex_rect
          and e = "ex_event 60 540", OF refl refl]
        click_selection[where st = ex_adv_selected and tst = ex_topo_pressed and rect = ex_rect
          and e = "ex_event 740 60", OF refl refl]
        click_selection[where st = ex_adv_selected and tst = ex_topo_pressed and rect = ex_rect
          and e = "ex_event 400 300", OF refl refl]
        ex_topo_pressed_fields
  by (simp add: ex_adv_selected_fields within_radius_def ex_event_def ex_rect_def
      minus_jsnum_def Let_def sqrt_le_iff_square)

text \<open>
  C10. Reset puts zoom at 1 and pan at the origin and clears the selected node, the
  selected route, the hovered node and every selection, hover and highlight flag of
  the scene; everything else stays: the nodes and routes keep all their other fields,
  positions included, and the display toggles keep their values. In
  \<open>AdvancedNetworkTopology\<close> the flags are cleared by the effects that follow the
  handler, in every state the component can reach; in \<open>NetworkTopologyVisualization\<close>
  by the handler itself, which also leaves the drag state alone.
\<close>

theorem reset_frame:
  assumes "adv_reachable st"
  shows "zoom (adv_step st Reset) = Fin 1 \<and> pan (adv_step st Reset) = (Fin 0, Fin 0) \<and>
         selectedNodeId (adv_step st Reset) = None \<and> selectedRouteId (adv_step st Reset) = None \<and>
         hoveredNodeId (adv_step st Reset) = None \<and>
         canvasNodes (adv_step st Reset) =
           map (\<lambda>n. n\<lparr>cn_isSelected := False, cn_isHovered := False\<rparr>) (canvasNodes st) \<and>
         canvasRoutes (adv_step st Reset) =
           map (\<lambda>r. r\<lparr>cr_isHighlighted := False\<rparr>) (canvasRoutes st) \<and>
         map (\<lambda>n. (cn_x n, cn_y n)) (canvasNodes (adv_step st Reset)) =
           map (\<lambda>n. (cn_x n, cn_y n)) (canvasNodes st) \<and>
         showLabels (adv_step st Reset) = showLabels st \<and>
         showGrid (adv_step st Reset) = showGrid st \<and>
         showRoutes (adv_step st Reset) = showRoutes st \<and>
         tv_zoom (topo_handleReset tst) = Fin 1 \<and> tv_pan (topo_handleReset tst) = (Fin 0, Fin 0) \<and>
         tv_selectedNode (topo_handleReset tst) = None \<and>
         tv_selectedRoute (topo_handleReset tst) = None \<and>
         tv_nodes (topo_handleReset tst) = map (\<lambda>n. n\<lparr>nn_isSelected := False\<rparr>) (tv_nodes tst) \<and>
         tv_routes (topo_handleReset tst) = map (\<lambda>r. r\<lparr>nr_isHighlighted := False\<rparr>) (tv_routes tst) \<and>
         map (\<lambda>n. (nn_x n, nn_y n)) (tv_nodes (topo_handleReset tst)) =
           map (\<lambda>n. (nn_x n, nn_y n)) (tv_nodes tst) \<and>
         tv_showLabels (topo_handleReset tst) = tv_showLabels tst \<and>
         tv_showRoutes (topo_handleReset tst) = tv_showRoutes tst \<and>
         tv_isDragging (topo_handleReset tst) = tv_isDragging tst \<and>
         tv_dragOffset (topo_handleReset tst) = tv_dragOffset tst"
proof -
  note inv = adv_reachable_flags[OF assms]
  have nodes: "canvasNodes (adv_step st Reset) =
                 map (\<lambda>n. n\<lparr>cn_isSelected := False, cn_isHovered := False\<rparr>) (canvasNodes st)"
  proof (cases "selectedNodeId st = None \<and> hoveredNodeId st = None")
    case True
    then have "\<forall>n \<in> set (canvasNodes st). \<not> cn_isSelected n \<and> \<not> cn_isHovered n"
      using inv by blast
    then have "map (\<lambda>n. n\<lparr>cn_isSelected := False, cn_isHovered := False\<rparr>) (canvasNodes st) = canvasNodes st"
      by (simp add: map_idI)
    then show ?thesis
      using True
      by (simp add: adv_step_def adv_effects_def adv_handleReset_def update_route_highlight_def Let_def)
  next
    case False
    then show ?thesis
      by (auto simp: adv_step_def adv_effects_def adv_handleReset_def update_node_selection_def
                     update_route_highlight_def Let_def)
  qed
  have routes: "canvasRoutes (adv_step st Reset) =
                  map (\<lambda>r. r\<lparr>cr_isHighlighted := False\<rparr>) (canvasRoutes st)"
  proof (cases "selectedRouteId st = None")
    case True
    then have "\<forall>r \<in> set (canvasRoutes st). \<not> cr_isHighlighted r"
      using inv by blast
    then have "map (\<lambda>r. r\<lparr>cr_isHighlighted := False\<rparr>) (canvasRoutes st) = canvasRoutes st"
      by (simp add: map_idI)
    then show ?thesis
      using True
      by (simp add: adv_step_def adv_effects_def adv_handleReset_def update_node_selection_def Let_def)
  next
    case False
    then show ?thesis
      by (auto simp: adv_step_def adv_effects_def adv_handleReset_def update_node_selection_def
                     update_route_highlight_def Let_def)
  qed
  have pos: "map (\<lambda>n. (cn_x n, cn_y n)) (canvasNodes (adv_step st Reset)) =
               map (\<lambda>n. (cn_x n, cn_y n)) (canvasNodes st)"
    by (simp add: nodes o_def)
  have rest: "zoom (adv_step st Reset) = Fin 1" "pan (adv_step st Reset) = (Fin 0, Fin 0)"
    "selectedNodeId (adv_step st Reset) = None" "selectedRouteId (adv_step st Reset) = None"
    "hoveredNodeId (adv_step st Reset) = None" "showLabels (adv_step st Reset) = showLabels st"
    "showGrid (adv_step st Reset) = showGrid st" "showRoutes (adv_step st Reset) = showRoutes st"
    by (simp_all add: adv_step_def adv_handleReset_def)
  have topo: "tv_zoom (topo_handleReset tst) = Fin 1" "tv_pan (topo_handleReset tst) = (Fin 0, Fin 0)"
    "tv_selectedNode (topo_handleReset tst) = None" "tv_selectedRoute (topo_handleReset tst) = None"
    "tv_nodes (topo_handleReset tst) = map (\<lambda>n. n\<lparr>nn_isSelected := False\<rparr>) (tv_nodes tst)"
    "tv_routes (topo_handleReset tst) = map (\<lambda>r. r\<lparr>nr_isHighlighted := False\<rparr>) (tv_routes tst)"
    "map (\<lambda>n. (nn_x n, nn_y n)) (tv_nodes (topo_handleReset tst)) = map (\<lambda>n. (nn_x n, nn_y n)) (tv_nodes tst)"
    "tv_showLabels (topo_handleReset tst) = tv_showLabels tst"
    "tv_showRoutes (topo_handleReset tst) = tv_showRoutes tst"
    "tv_isDragging (topo_handleReset tst) = tv_isDragging tst"
    "tv_dragOffset (topo_handleReset tst) = tv_dragOffset tst"
    by (simp_all add: topo_handleReset_def o_def)
  show ?thesis
    by (intro conjI nodes routes pos rest topo)
qed

text \<open>
  The example: the farm is selected in the first component; in the second it has been
  pressed and then dragged to \<open>(120, 480)\<close>.
\<close>

theorem reset_frame_witness:
  "adv_reachable ex_adv_selected \<and>
   map cn_isSelected (canvasNodes ex_adv_selected) = [True, False] \<and>
   selectedNodeId (adv_step ex_adv_selected Reset) = None \<and>
   map cn_isSelected (canvasNodes (adv_step ex_adv_selected Reset)) = [False, False] \<and>
   map (\<lambda>n. (cn_x n, cn_y n)) (canvasNodes (adv_step ex_adv_selected Reset)) =
     [(Fin 60, Fin 540), (Fin 740, Fin 60)] \<and>
   map (\<lambda>n. (nn_x n, nn_y n, nn_isSelected n))
     (tv_nodes (topo_handleMouseMove (Some ex_rect) (ex_event 120 480) ex_topo_pressed)) =
     [(Fin 120, Fin 480, True), (Fin 750, Fin 50, False)] \<and>
   map (\<lambda>n. (nn_x n, nn_y n, nn_isSelected n))
     (tv_nodes (topo_handleReset (topo_handleMouseMove (Some ex_rect) (ex_event 120 480) ex_topo_pressed))) =
     [(Fin 120, Fin 480, False), (Fin 750, Fin 50, False)] \<and>
   tv_selectedNode (topo_handleReset (topo_handleMouseMove (Some ex_rect) (ex_event 120 480) ex_topo_pressed)) = None"
proof -
  have moved: "tv_nodes (topo_handleMouseMove (Some ex_rect) (ex_event 120 480) ex_topo_pressed) =
     map (\<lambda>n. if nn_id n = ''a'' then n\<lparr>nn_x := Fin 120, nn_y := Fin 480\<rparr> else n) (tv_nodes ex_topo_pressed)"
    using ex_topo_pressed_fields(2,4)
    by (auto simp: topo_handleMouseMove_def topo_getMousePos_def ex_topo_pressed_fields(5,6,7)
        ex_event_def ex_rect_def minus_jsnum_def Let_def split: option.splits)
  show ?thesis
    using reset_frame[OF ex_adv_selected_reachable,
            of "topo_handleMouseMove (Some ex_rect) (ex_event 120 480) ex_topo_pressed"]
          ex_adv_selected_reachable
    by (simp add: moved ex_adv_selected_fields ex_topo_pressed_fields(1))
qed

section \<open>Hit testing\<close>

lemma ex_close_nodes_eq:
  "ex_close_nodes =
     [\<lparr>cn_id = ''a'', cn_name = ''Farm A'', cn_x = Fin 60, cn_y = Fin 540, cn_radius = Fin 25,
       cn_color = ''#10B981'', cn_type = ''farm'', cn_isSelected = False, cn_isHovered = False\<rparr>,
      \<lparr>cn_id = ''c'', cn_name = ''Farm C'', cn_x = Fin 60, cn_y = Fin 540, cn_radius = Fin 25,
       cn_color = ''#10B981'', cn_type = ''farm'', cn_isSelected = False, cn_isHovered = False\<rparr>,
      \<lparr>cn_id = ''d'', cn_name = ''Farm D'', cn_x = Fin 70, cn_y = Fin 540, cn_radius = Fin 25,
       cn_color = ''#10B981'', cn_type = ''farm'', cn_isSelected = False, cn_isHovered = False\<rparr>,
      \<lparr>cn_id = ''b'', cn_name = ''Plant B'', cn_x = Fin 740, cn_y = Fin 60, cn_radius = Fin 35,
       cn_color = ''#8B5CF6'', cn_type = ''processing_plant'', cn_isSelected = False,
       cn_isHovered = False\<rparr>]"
  by (simp add: ex_defs scene_defs num_defs Let_def)


section \<open>Routes and their endpoints\<close>

lemma find_None_ids: "(find (\<lambda>n. f n = i) xs = None) = (i \<notin> f ` set xs)"
  by (auto simp: find_None_iff)

lemma adv_canvasRoute_None:
  "(adv_canvasRoute nodes r = None) =
     (from_id r \<notin> cn_id ` set nodes \<or> to_id r \<notin> cn_id ` set nodes)"
  by (auto simp: adv_canvasRoute_def Let_def find_None_ids[symmetric] split: option.splits prod.splits)

lemma adv_canvasRoute_id: "adv_canvasRoute nodes r = Some e \<Longrightarrow> cr_id e = rt_id r"
  by (auto simp: adv_canvasRoute_def Let_def split: option.splits prod.splits)

lemma newCanvasRoutes_ids:
  "map cr_id (newCanvasRoutes nodes rs) =
     map rt_id (filter (\<lambda>r. from_id r \<in> cn_id ` set nodes \<and> to_id r \<in> cn_id ` set nodes) rs)"
proof (induction rs)
  case Nil
  show ?case by (simp add: newCanvasRoutes_def List.map_filter_simps)
next
  case (Cons r rs)
  show ?case
  proof (cases "adv_canvasRoute nodes r")
    case None
    then show ?thesis
      using Cons adv_canvasRoute_None[of nodes r]
      by (auto simp: newCanvasRoutes_def List.map_filter_simps)
  next
    case (Some e)
    then have "from_id r \<in> cn_id ` set nodes \<and> to_id r \<in> cn_id ` set nodes"
      using adv_canvasRoute_None[of nodes r] by auto
    then show ?thesis
      using Some Cons adv_canvasRoute_id[OF Some]
      by (simp add: newCanvasRoutes_def List.map_filter_simps)
  qed
qed

lemma newCanvasNodes_ids: "map cn_id (fst (newCanvasNodes rnd ns k)) = map in_id ns"
  unfolding newCanvasNodes_def Let_def
  by (rule map_drawing_map) (simp add: adv_canvasNode_def Let_def split: prod.splits)

lemma networkNodes_ids: "map nn_id (fst (networkNodes rnd ns k)) = map in_id ns"
  unfolding networkNodes_def Let_def
  by (rule map_drawing_map) (simp add: topo_networkNode_def Let_def split: prod.splits)

lemma topo_drawRoute_None:
  "(topo_drawRoute nodes r = None) =
     (nr_fromNodeId r \<notin> nn_id ` set nodes \<or> nr_toNodeId r \<notin> nn_id ` set nodes)"
  by (auto simp: topo_drawRoute_def find_None_ids[symmetric] split: option.splits)

text \<open>
  C3, as the claim states it, fails in \<open>NetworkTopologyVisualization\<close>: a route to the
  unknown node \<open>zz\<close> is a route of the state after mount.
\<close>

theorem topo_keeps_dangling_route:
  "map nr_id (tv_routes (fst (topo_mount ex_rnd [ex_farm_a, ex_plant_b] [ex_route ''r9'' ''a'' ''zz''] 0))) = [''r9''] \<and>
   map nn_id (tv_nodes (fst (topo_mount ex_rnd [ex_farm_a, ex_plant_b] [ex_route ''r9'' ''a'' ''zz''] 0))) = [''a'', ''b'']"
  by (simp add: ex_defs scene_defs num_defs topo_defs Let_def)

text \<open>
  C3, amended. In \<open>AdvancedNetworkTopology\<close> a route with an endpoint that is the id of
  no node is dropped when the scene is built: it gives no scene route, the scene routes
  are those of the input routes with both endpoints among the node ids, in input
  order, and each scene route comes from an input route whose two endpoints are found.
  In \<open>NetworkTopologyVisualization\<close> every input route is kept as a route of the state,
  and \<open>drawRoute\<close> returns without drawing for a route with a missing endpoint.
\<close>

theorem dangling_routes:
  "(adv_canvasRoute nodes r = None \<longleftrightarrow>
      from_id r \<notin> cn_id ` set nodes \<or> to_id r \<notin> cn_id ` set nodes) \<and>
   map cr_id (newCanvasRoutes nodes rs) =
     map rt_id (filter (\<lambda>r. from_id r \<in> cn_id ` set nodes \<and> to_id r \<in> cn_id ` set nodes) rs) \<and>
   (\<forall>e \<in> set (newCanvasRoutes nodes rs). \<exists>r \<in> set rs. \<exists>fromNode toNode.
      adv_canvasRoute nodes r = Some e \<and>
      find (\<lambda>n. cn_id n = from_id r) nodes = Some fromNode \<and>
      find (\<lambda>n. cn_id n = to_id r) nodes = Some toNode) \<and>
   map cr_id (canvasRoutes (fst (adv_mount rnd inputNodes rs k))) =
     map rt_id (filter (\<lambda>r. from_id r \<in> in_id ` set inputNodes \<and> to_id r \<in> in_id ` set inputNodes) rs) \<and>
   map nr_id (networkRoutes rs) = map rt_id rs \<and>
   (topo_drawRoute tnodes tr = None \<longleftrightarrow>
      nr_fromNodeId tr \<notin> nn_id ` set tnodes \<or> nr_toNodeId tr \<notin> nn_id ` set tnodes)"
proof -
  have resolvable: "\<forall>e \<in> set (newCanvasRoutes nodes rs). \<exists>r \<in> set rs. \<exists>fromNode toNode.
      adv_canvasRoute nodes r = Some e \<and>
      find (\<lambda>n. cn_id n = from_id r) nodes = Some fromNode \<and>
      find (\<lambda>n. cn_id n = to_id r) nodes = Some toNode"
  proof
    fix e assume "e \<in> set (newCanvasRoutes nodes rs)"
    then obtain r where r: "r \<in> set rs" "adv_canvasRoute nodes r = Some e"
      by (auto simp: newCanvasRoutes_def List.map_filter_def)
    then obtain fromNode toNode where
      "find (\<lambda>n. cn_id n = from_id r) nodes = Some fromNode"
      "find (\<lambda>n. cn_id n = to_id r) nodes = Some toNode"
      by (auto simp: adv_canvasRoute_def split: option.splits)
    then show "\<exists>r \<in> set rs. \<exists>fromNode toNode.
      adv_canvasRoute nodes r = Some e \<and>
      find (\<lambda>n. cn_id n = from_id r) nodes = Some fromNode \<and>
      find (\<lambda>n. cn_id n = to_id r) nodes = Some toNode"
      using r by blast
  qed
  have mount: "map cr_id (canvasRoutes (fst (adv_mount rnd inputNodes rs k))) =
     map rt_id (filter (\<lambda>r. from_id r \<in> in_id ` set inputNodes \<and> to_id r \<in> in_id ` set inputNodes) rs)"
  proof (cases "inputNodes = []")
    case True
    then show ?thesis
      by (simp add: adv_mount_def adv_init_effect_def adv_initial_def update_node_selection_def
          update_route_highlight_def)
  next
    case False
    have ids: "cn_id ` set (fst (newCanvasNodes rnd inputNodes k)) = in_id ` set inputNodes"
      using newCanvasNodes_ids[of rnd inputNodes k] by (metis set_map)
    have "map cr_id (canvasRoutes (fst (adv_mount rnd inputNodes rs k))) =
            map cr_id (newCanvasRoutes (fst (newCanvasNodes rnd inputNodes k)) rs)"
      using False
      by (simp add: adv_mount_def adv_init_effect_def update_node_selection_def
          update_route_highlight_def Let_def o_def split: prod.splits)
    then show ?thesis by (simp add: newCanvasRoutes_ids ids)
  qed
  have kept: "map nr_id (networkRoutes rs) = map rt_id rs"
    by (simp add: networkRoutes_def o_def)
  show ?thesis
    by (intro conjI adv_canvasRoute_None newCanvasRoutes_ids resolvable mount kept topo_drawRoute_None)
qed

theorem dangling_routes_witness:
  "adv_canvasRoute (canvasNodes ex_adv_mounted) (ex_route ''r9'' ''a'' ''zz'') = None \<and>
   map cr_id (newCanvasRoutes (canvasNodes ex_adv_mounted)
                [ex_route ''r1'' ''a'' ''b'', ex_route ''r9'' ''a'' ''zz'', ex_route ''r2'' ''b'' ''a'']) =
     [''r1'', ''r2''] \<and>
   map nr_id (networkRoutes [ex_route ''r1'' ''a'' ''b'', ex_route ''r9'' ''a'' ''zz'', ex_route ''r2'' ''b'' ''a'']) =
     [''r1'', ''r9'', ''r2''] \<and>
   topo_drawRoute (tv_nodes ex_topo_mounted) (hd (networkRoutes [ex_route ''r9'' ''a'' ''zz''])) = None"
  using dangling_routes[where nodes = "canvasNodes ex_adv_mounted" and r = "ex_route ''r9'' ''a'' ''zz''"
          and rs = "[ex_route ''r1'' ''a'' ''b'', ex_route ''r9'' ''a'' ''zz'', ex_route ''r2'' ''b'' ''a'']"
          and rnd = ex_rnd and inputNodes = "[]" and k = 0 and tnodes = "tv_nodes ex_topo_mounted"
          and tr = "hd (networkRoutes [ex_route ''r9'' ''a'' ''zz''])"]
  by (simp add: ex_adv_mounted_fields ex_topo_mounted_fields ex_route_def networkRoutes_def)

section \<open>Empty input\<close>

text \<open>
  C9. An empty list of input nodes gives an empty scene only on mount, where the scene
  is the empty initial state. When the props become empty later, the initialisation
  effect runs again (the props are its dependencies) and returns before any \<open>set\<close>
  call: the farm, the plant and the route of the example stay in the state of both
  components and are drawn again, while the same effect replaces the scene for every
  list that is not empty (here for the plant alone).
\<close>

theorem empty_props_keep_stale_scene:
  "map cn_id (canvasNodes ex_adv_mounted) = [''a'', ''b''] \<and>
   map cr_id (canvasRoutes ex_adv_mounted) = [''r1''] \<and>
   fst (adv_init_effect ex_rnd [] [] (ex_adv_mounted, 0)) = ex_adv_mounted \<and>
   map cn_id (canvasNodes (fst (adv_init_effect ex_rnd [] [] (ex_adv_mounted, 0)))) = [''a'', ''b''] \<and>
   map cr_id (canvasRoutes (fst (adv_init_effect ex_rnd [] [] (ex_adv_mounted, 0)))) = [''r1''] \<and>
   map cr_id (adv_routes_prop (fst (adv_init_effect ex_rnd [] [] (ex_adv_mounted, 0)))) = [''r1''] \<and>
   map nn_id (tv_nodes ex_topo_mounted) = [''a'', ''b''] \<and>
   map nr_id (tv_routes ex_topo_mounted) = [''r1''] \<and>
   fst (topo_init_effect ex_rnd [] [] (ex_topo_mounted, 0)) = ex_topo_mounted \<and>
   map nn_id (tv_nodes (fst (topo_init_effect ex_rnd [] [] (ex_topo_mounted, 0)))) = [''a'', ''b''] \<and>
   map nr_id (tv_routes (fst (topo_init_effect ex_rnd [] [] (ex_topo_mounted, 0)))) = [''r1''] \<and>
   length (topo_drawn_routes (fst (topo_init_effect ex_rnd [] [] (ex_topo_mounted, 0)))) = 1 \<and>
   map cn_id (canvasNodes (fst (adv_init_effect ex_rnd [ex_plant_b] [] (ex_adv_mounted, 0)))) = [''b''] \<and>
   canvasRoutes (fst (adv_init_effect ex_rnd [ex_plant_b] [] (ex_adv_mounted, 0))) = [] \<and>
   map nn_id (tv_nodes (fst (topo_init_effect ex_rnd [ex_plant_b] [] (ex_topo_mounted, 0)))) = [''b''] \<and>
   tv_routes (fst (topo_init_effect ex_rnd [ex_plant_b] [] (ex_topo_mounted, 0))) = [] \<and>
   canvasNodes (fst (adv_mount ex_rnd [] [ex_route ''r1'' ''a'' ''b''] 0)) = [] \<and>
   canvasRoutes (fst (adv_mount ex_rnd [] [ex_route ''r1'' ''a'' ''b''] 0)) = [] \<and>
   tv_nodes (fst (topo_mount ex_rnd [] [ex_route ''r1'' ''a'' ''b''] 0)) = [] \<and>
   tv_routes (fst (topo_mount ex_rnd [] [ex_route ''r1'' ''a'' ''b''] 0)) = [] \<and>
   topo_drawn_routes (fst (topo_mount ex_rnd [] [ex_route ''r1'' ''a'' ''b''] 0)) = []"
proof -
  have an: "map cn_id (canvasNodes ex_adv_mounted) = [''a'', ''b'']"
    by (simp add: ex_adv_mounted_fields)
  have ar: "map cr_id (canvasRoutes ex_adv_mounted) = [''r1'']"
  proof -
    let ?nodes = "fst (newCanvasNodes ex_rnd [ex_farm_a, ex_plant_b] 0)"
    have "canvasRoutes ex_adv_mounted =
            map (\<lambda>route. route\<lparr>cr_isHighlighted := False\<rparr>)
                (newCanvasRoutes ?nodes [ex_route ''r1'' ''a'' ''b''])"
      by (simp add: ex_adv_mounted_def adv_mount_def adv_init_effect_def adv_initial_def
          update_node_selection_def update_route_highlight_def Let_def split: prod.splits)
    then have "map cr_id (canvasRoutes ex_adv_mounted) =
                 map cr_id (newCanvasRoutes ?nodes [ex_route ''r1'' ''a'' ''b''])"
      by (simp add: comp_def)
    moreover have "cn_id ` set ?nodes = {''a'', ''b''}"
      using newCanvasNodes_ids [of ex_rnd "[ex_farm_a, ex_plant_b]" 0]
      by (simp add: set_map [symmetric] ex_farm_a_def ex_plant_b_def del: set_map)
    ultimately show ?thesis
      by (simp add: newCanvasRoutes_ids ex_route_def)
  qed
  have sr: "showRoutes ex_adv_mounted"
    by (simp add: ex_adv_mounted_def adv_mount_def adv_init_effect_def adv_initial_def
        update_node_selection_def update_route_highlight_def Let_def split: prod.splits)
  have ae: "fst (adv_init_effect ex_rnd [] [] (ex_adv_mounted, 0)) = ex_adv_mounted"
    by (simp add: init_effect_empty_unchanged)
  have tn: "map nn_id (tv_nodes ex_topo_mounted) = [''a'', ''b'']"
    "map nr_id (tv_routes ex_topo_mounted) = [''r1'']"
    by (simp_all add: ex_topo_mounted_fields)
  have ts: "tv_showRoutes ex_topo_mounted"
    by (simp add: ex_topo_mounted_def topo_mount_def topo_init_effect_def topo_initial_def
        Let_def split: prod.splits)
  have te: "fst (topo_init_effect ex_rnd [] [] (ex_topo_mounted, 0)) = ex_topo_mounted"
    by (simp add: init_effect_empty_unchanged)
  have drawn: "length (topo_drawn_routes ex_topo_mounted) = 1"
    by (simp add: topo_drawn_routes_def ts ex_topo_mounted_fields)
  have ab: "map cn_id (canvasNodes (fst (adv_init_effect ex_rnd [ex_plant_b] [] (ex_adv_mounted, 0)))) = [''b'']"
    "canvasRoutes (fst (adv_init_effect ex_rnd [ex_plant_b] [] (ex_adv_mounted, 0))) = []"
    by (simp_all add: adv_init_effect_def newCanvasNodes_ids newCanvasRoutes_def
        List.map_filter_simps ex_plant_b_def Let_def case_prod_beta)
  have tb: "map nn_id (tv_nodes (fst (topo_init_effect ex_rnd [ex_plant_b] [] (ex_topo_mounted, 0)))) = [''b'']"
    "tv_routes (fst (topo_init_effect ex_rnd [ex_plant_b] [] (ex_topo_mounted, 0))) = []"
    by (simp_all add: topo_init_effect_def networkNodes_ids networkRoutes_def
        ex_plant_b_def Let_def case_prod_beta)
  have mount: "canvasNodes (fst (adv_mount ex_rnd [] [ex_route ''r1'' ''a'' ''b''] 0)) = []"
    "canvasRoutes (fst (adv_mount ex_rnd [] [ex_route ''r1'' ''a'' ''b''] 0)) = []"
    "tv_nodes (fst (topo_mount ex_rnd [] [ex_route ''r1'' ''a'' ''b''] 0)) = []"
    "tv_routes (fst (topo_mount ex_rnd [] [ex_route ''r1'' ''a'' ''b''] 0)) = []"
    "topo_drawn_routes (fst (topo_mount ex_rnd [] [ex_route ''r1'' ''a'' ''b''] 0)) = []"
    by (simp_all add: adv_mount_def adv_init_effect_def adv_initial_def update_node_selection_def
        update_route_highlight_def topo_mount_def topo_init_effect_def topo_initial_def
        topo_drawn_routes_def)
  show ?thesis
    unfolding ae te
    by (intro conjI an ar tn drawn ab tb mount refl) (simp add: adv_routes_prop_def sr ar)
qed

section \<open>Connector geometry\<close>

lemma adv_canvasRoute_points:
  "find (\<lambda>n. cn_id n = from_id r) nodes = Some a \<Longrightarrow> find (\<lambda>n. cn_id n = to_id r) nodes = Some b \<Longrightarrow>
   \<exists>e. adv_canvasRoute nodes r = Some e \<and>
       (cr_fromX e, cr_fromY e, cr_toX e, cr_toY e) =
         connection_points (cn_x a) (cn_y a) (cn_radius a) (cn_x b) (cn_y b) (cn_radius b)"
  by (simp add: adv_canvasRoute_def Let_def split: prod.splits)

lemma topo_drawRoute_points:
  "find (\<lambda>n. nn_id n = nr_fromNodeId r) nodes = Some a \<Longrightarrow>
   find (\<lambda>n. nn_id n = nr_toNodeId r) nodes = Some b \<Longrightarrow>
   topo_drawRoute nodes r =
     Some (connection_points (nn_x a) (nn_y a) (nn_radius a) (nn_x b) (nn_y b) (nn_radius b))"
  by (simp add: topo_drawRoute_def)

text \<open>Coincident centres: the distance is 0 and every quotient is \<open>0/0\<close>.\<close>

lemma NaN_absorbs [simp]:
  "NaN * v = NaN" "v * NaN = NaN" "NaN + v = NaN" "v + NaN = NaN" "v - NaN = NaN" "NaN - v = NaN"
  by (cases v; simp add: minus_jsnum_def)+

lemma connection_points_coincident:
  "connection_points (Fin x) (Fin y) r1 (Fin x) (Fin y) r2 = (NaN, NaN, NaN, NaN)"
  by (simp add: connection_points_def minus_jsnum_def Let_def)

lemma connection_points_distinct:
  assumes "x1 \<noteq> x2 \<or> y1 \<noteq> y2"
    and "L = sqrt ((x2 - x1) * (x2 - x1) + (y2 - y1) * (y2 - y1))"
  shows "connection_points (Fin x1) (Fin y1) (Fin r1) (Fin x2) (Fin y2) (Fin r2) =
           (Fin (x1 + (x2 - x1) / L * r1), Fin (y1 + (y2 - y1) / L * r1),
            Fin (x2 - (x2 - x1) / L * r2), Fin (y2 - (y2 - y1) / L * r2))"
    and "0 < L" and "L * L = (x2 - x1) * (x2 - x1) + (y2 - y1) * (y2 - y1)"
proof -
  let ?s = "(x2 - x1) * (x2 - x1) + (y2 - y1) * (y2 - y1)"
  have "0 < (x2 - x1) * (x2 - x1) \<or> 0 < (y2 - y1) * (y2 - y1)"
    using assms(1) by (auto simp: zero_less_mult_iff)
  moreover have "0 \<le> (x2 - x1) * (x2 - x1)" "0 \<le> (y2 - y1) * (y2 - y1)" by simp_all
  ultimately have s: "0 < ?s" by linarith
  then show L: "0 < L" using assms(2) by simp
  show "L * L = ?s" using s assms(2) by simp
  have "\<not> ?s < 0" using s by linarith
  then show "connection_points (Fin x1) (Fin y1) (Fin r1) (Fin x2) (Fin y2) (Fin r2) =
           (Fin (x1 + (x2 - x1) / L * r1), Fin (y1 + (y2 - y1) / L * r1),
            Fin (x2 - (x2 - x1) / L * r2), Fin (y2 - (y2 - y1) / L * r2))"
    using L assms by (auto simp: connection_points_def minus_jsnum_def Let_def)
qed

text \<open>
  C2. The code has no guard: for the two farms of the example that share a place,
  the route between them is still produced, with all four endpoint coordinates \<open>NaN\<close>.
  The renderer of \<open>AdvancedNetworkTopology\<close> then fails with a \<open>TypeError\<close> on that
  route, also when a route that can be drawn comes before it; \<open>drawRoute\<close> of
  \<open>NetworkTopologyVisualization\<close> passes the \<open>NaN\<close> values on to the canvas. The same
  happens for a route from a node to itself.
\<close>

theorem coincident_centres_give_nan:
  "map cn_x ex_close_nodes = [Fin 60, Fin 60, Fin 70, Fin 740] \<and>
   map cn_y ex_close_nodes = [Fin 540, Fin 540, Fin 540, Fin 60] \<and>
   map cr_id (newCanvasRoutes ex_close_nodes [ex_route ''r4'' ''a'' ''c'']) = [''r4''] \<and>
   map cr_fromX (newCanvasRoutes ex_close_nodes [ex_route ''r4'' ''a'' ''c'']) = [NaN] \<and>
   map cr_fromY (newCanvasRoutes ex_close_nodes [ex_route ''r4'' ''a'' ''c'']) = [NaN] \<and>
   map cr_toX (newCanvasRoutes ex_close_nodes [ex_route ''r4'' ''a'' ''c'']) = [NaN] \<and>
   map cr_toY (newCanvasRoutes ex_close_nodes [ex_route ''r4'' ''a'' ''c'']) = [NaN] \<and>
   map renderer_drawRoute (newCanvasRoutes ex_close_nodes [ex_route ''r4'' ''a'' ''c'']) = [Inl TypeError] \<and>
   map renderer_drawRoute (newCanvasRoutes ex_close_nodes [ex_route ''r5'' ''b'' ''b'']) = [Inl TypeError] \<and>
   renderer_drawRoutes (newCanvasRoutes ex_close_nodes
                          [ex_route ''r1'' ''a'' ''b'', ex_route ''r4'' ''a'' ''c'']) = Inl TypeError \<and>
   map (topo_drawRoute (fst (networkNodes ex_rnd [ex_farm_a, ex_farm_c, ex_farm_d, ex_plant_b] 0)))
       (networkRoutes [ex_route ''r4'' ''a'' ''c'']) = [Some (NaN, NaN, NaN, NaN)]"
proof -
  have topo: "map (topo_drawRoute (fst (networkNodes ex_rnd [ex_farm_a, ex_farm_c, ex_farm_d, ex_plant_b] 0)))
       (networkRoutes [ex_route ''r4'' ''a'' ''c'']) = [Some (NaN, NaN, NaN, NaN)]"
    by (simp add: ex_defs scene_defs num_defs Let_def)
  show ?thesis
    using topo
    by (simp add: ex_close_nodes_eq newCanvasRoutes_def List.map_filter_def adv_canvasRoute_def
        connection_points_def ex_route_def renderer_drawRoute_def minus_jsnum_def Let_def)
qed

text \<open>
  C4, as the claim states it, fails for two nodes whose circles overlap. The first and
  the third farm of the example have their centres at \<open>x = 60\<close> and \<open>x = 70\<close> on the same
  height and radius 25: the route from the first to the third runs from \<open>x = 85\<close> back to
  \<open>x = 45\<close>, against the direction from centre to centre.
\<close>

theorem overlapping_nodes_reverse_segment:
  "map cn_x ex_close_nodes = [Fin 60, Fin 60, Fin 70, Fin 740] \<and>
   map cn_y ex_close_nodes = [Fin 540, Fin 540, Fin 540, Fin 60] \<and>
   map cn_radius ex_close_nodes = [Fin 25, Fin 25, Fin 25, Fin 35] \<and>
   map cr_fromX (newCanvasRoutes ex_close_nodes [ex_route ''r3'' ''a'' ''d'']) = [Fin 85] \<and>
   map cr_fromY (newCanvasRoutes ex_close_nodes [ex_route ''r3'' ''a'' ''d'']) = [Fin 540] \<and>
   map cr_toX (newCanvasRoutes ex_close_nodes [ex_route ''r3'' ''a'' ''d'']) = [Fin 45] \<and>
   map cr_toY (newCanvasRoutes ex_close_nodes [ex_route ''r3'' ''a'' ''d'']) = [Fin 540]"
  by (simp add: ex_close_nodes_eq newCanvasRoutes_def List.map_filter_def adv_canvasRoute_def
      connection_points_def ex_route_def minus_jsnum_def Let_def)

text \<open>
  Rounded arithmetic. A rounding within \<open>u\<close> multiplies each number by a factor between
  \<open>1 - u\<close> and \<open>1 + u\<close>; the lemmas below follow these factors through the six lines.
\<close>

lemma rounds_abs:
  assumes "rounds_within u fl"
  shows "\<bar>fl x\<bar> \<le> (1 + u) * \<bar>x\<bar>" and "(1 - u) * \<bar>x\<bar> \<le> \<bar>fl x\<bar>"
proof -
  have e: "\<bar>fl x - x\<bar> \<le> u * \<bar>x\<bar>" using assms by (simp add: rounds_within_def)
  show "\<bar>fl x\<bar> \<le> (1 + u) * \<bar>x\<bar>" using e by (simp add: algebra_simps)
  show "(1 - u) * \<bar>x\<bar> \<le> \<bar>fl x\<bar>" using e by (simp add: algebra_simps)
qed

lemma rounds_nonneg:
  assumes "rounds_within u fl" and "u \<le> 1" and "0 \<le> x"
  shows "(1 - u) * x \<le> fl x" and "fl x \<le> (1 + u) * x" and "0 \<le> fl x"
proof -
  have e: "\<bar>fl x - x\<bar> \<le> u * x" using assms(1,3) by (simp add: rounds_within_def) (metis abs_of_nonneg)
  show l: "(1 - u) * x \<le> fl x" using e by (simp add: algebra_simps)
  show "fl x \<le> (1 + u) * x" using e by (simp add: algebra_simps)
  have "0 \<le> (1 - u) * x" using assms(2,3) by simp
  then show "0 \<le> fl x" using l by linarith
qed


lemma rounds_factor:
  assumes "rounds_within u fl" and "0 \<le> u"
  obtains e where "\<bar>e\<bar> \<le> u" and "fl x = x * (1 + e)"
proof (cases "x = 0")
  case True
  have "\<bar>fl 0 - 0\<bar> \<le> u * \<bar>0::real\<bar>" using assms(1) unfolding rounds_within_def by blast
  then have "fl 0 = 0" by simp
  with True assms(2) that [of 0] show thesis by simp
next
  case False
  have e: "\<bar>fl x - x\<bar> \<le> u * \<bar>x\<bar>" using assms(1) by (simp add: rounds_within_def)
  have "\<bar>(fl x - x) / x\<bar> = \<bar>fl x - x\<bar> / \<bar>x\<bar>" by simp
  also have "\<dots> \<le> u" using e False by (simp add: field_simps)
  finally have 1: "\<bar>(fl x - x) / x\<bar> \<le> u" .
  have 2: "fl x = x * (1 + (fl x - x) / x)" using False by (simp add: field_simps)
  from 1 2 that show thesis by blast
qed

lemma roundoff_growth:
  fixes u :: real
  assumes "0 \<le> u" and "u \<le> 1/16"
  shows "(1 + u)\<^sup>2 \<le> (1 + 5 * u) * (1 - u)\<^sup>2"
    and "(1 - 5 * u) * (1 + u)\<^sup>2 \<le> (1 - u)\<^sup>2"
proof -
  have a: "0 \<le> u * (1 - 10 * u)" using assms by (intro mult_nonneg_nonneg) auto
  have b: "0 \<le> u * u * u" using assms by (intro mult_nonneg_nonneg) auto
  have c: "0 \<le> u * u" by simp
  have "(1 + 5 * u) * (1 - u)\<^sup>2 - (1 + u)\<^sup>2 = u * (1 - 10 * u) + 5 * (u * u * u)"
    by (simp add: power2_eq_square algebra_simps)
  with a b show "(1 + u)\<^sup>2 \<le> (1 + 5 * u) * (1 - u)\<^sup>2" by linarith
  have "(1 - u)\<^sup>2 - (1 - 5 * u) * (1 + u)\<^sup>2 = u + 10 * (u * u) + 5 * (u * u * u)"
    by (simp add: power2_eq_square algebra_simps)
  with assms(1) b c show "(1 - 5 * u) * (1 + u)\<^sup>2 \<le> (1 - u)\<^sup>2" by linarith
qed

lemma factor_product:
  fixes u e e' :: real
  assumes "0 \<le> u" and "u \<le> 1" and "\<bar>e\<bar> \<le> u" and "\<bar>e'\<bar> \<le> u"
  shows "(1 - u)\<^sup>2 \<le> (1 + e) * (1 + e')" and "(1 + e) * (1 + e') \<le> (1 + u)\<^sup>2"
proof -
  have l: "1 - u \<le> 1 + e" "1 - u \<le> 1 + e'" and h: "1 + e \<le> 1 + u" "1 + e' \<le> 1 + u"
    using assms(3,4) by linarith+
  have "(1 - u) * (1 - u) \<le> (1 + e) * (1 + e')"
    using l assms(2) by (intro mult_mono) auto
  then show "(1 - u)\<^sup>2 \<le> (1 + e) * (1 + e')" by (simp add: power2_eq_square)
  have "(1 + e) * (1 + e') \<le> (1 + u) * (1 + u)"
    using h l assms(1,2) by (intro mult_mono) auto
  then show "(1 + e) * (1 + e') \<le> (1 + u)\<^sup>2" by (simp add: power2_eq_square)
qed

lemma kappa_bound:
  fixes u e e' \<rho> :: real
  assumes "0 \<le> u" and "u \<le> 1/16" and "\<bar>e\<bar> \<le> u" and "\<bar>e'\<bar> \<le> u"
      and "(1 - u)\<^sup>2 \<le> \<rho>" and "\<rho> \<le> (1 + u)\<^sup>2"
  shows "\<bar>(1 + e) * (1 + e') / \<rho> - 1\<bar> \<le> 5 * u"
proof -
  have u1: "u \<le> 1" using assms(2) by simp
  have pos: "0 < (1 - u)\<^sup>2" using assms(2) by simp
  then have rpos: "0 < \<rho>" using assms(5) by linarith
  note m = factor_product [OF assms(1) u1 assms(3,4)]
  have "(1 + e) * (1 + e') \<le> (1 + 5 * u) * (1 - u)\<^sup>2"
    using m(2) roundoff_growth(1) [OF assms(1,2)] by linarith
  also have "\<dots> \<le> (1 + 5 * u) * \<rho>" using assms(1,5) by (intro mult_left_mono) auto
  finally have up: "(1 + e) * (1 + e') / \<rho> \<le> 1 + 5 * u" using rpos by (simp add: field_simps)
  have "(1 - 5 * u) * \<rho> \<le> (1 - 5 * u) * (1 + u)\<^sup>2"
    using assms(2,6) by (intro mult_left_mono) auto
  also have "\<dots> \<le> (1 - u)\<^sup>2" by (rule roundoff_growth(2) [OF assms(1,2)])
  also have "\<dots> \<le> (1 + e) * (1 + e')" by (rule m(1))
  finally have lo: "1 - 5 * u \<le> (1 + e) * (1 + e') / \<rho>" using rpos by (simp add: field_simps)
  from up lo show ?thesis by (simp add: abs_le_iff)
qed


lemma distance_factor:
  assumes R: "rounds_within u fl" and u0: "0 \<le> u" and u1: "u \<le> 1/16"
      and nz: "dx \<noteq> 0 \<or> dy \<noteq> 0"
      and N: "N = sqrt (dx * dx + dy * dy)"
      and D: "D = fl (sqrt (fl (fl (dx * dx) + fl (dy * dy))))"
  shows "0 < N" and "(1 - u)\<^sup>2 * N \<le> D" and "D \<le> (1 + u)\<^sup>2 * N"
proof -
  have le1: "u \<le> 1" using u1 by simp
  have sq: "0 < dx * dx + dy * dy"
    using nz by (metis add.commute add_pos_nonneg not_real_square_gt_zero zero_le_square)
  then show Npos: "0 < N" by (simp add: N)
  have NN: "N * N = dx * dx + dy * dy" using sq by (simp add: N)
  let ?s1 = "fl (dx * dx)" and ?s2 = "fl (dy * dy)"
  have s1: "(1 - u) * (dx * dx) \<le> ?s1" "?s1 \<le> (1 + u) * (dx * dx)"
    using rounds_nonneg [OF R le1, of "dx * dx"] by simp_all
  have s2: "(1 - u) * (dy * dy) \<le> ?s2" "?s2 \<le> (1 + u) * (dy * dy)"
    using rounds_nonneg [OF R le1, of "dy * dy"] by simp_all
  have S_lo: "(1 - u) * (N * N) \<le> ?s1 + ?s2" using s1(1) s2(1) by (simp add: NN algebra_simps)
  have S_hi: "?s1 + ?s2 \<le> (1 + u) * (N * N)" using s1(2) s2(2) by (simp add: NN algebra_simps)
  have S0: "0 \<le> ?s1 + ?s2"
  proof -
    have "0 \<le> (1 - u) * (N * N)" using le1 by simp
    with S_lo show ?thesis by linarith
  qed
  let ?s = "fl (?s1 + ?s2)"
  note fs = rounds_nonneg [OF R le1 S0]
  have "(1 - u) * ((1 - u) * (N * N)) \<le> (1 - u) * (?s1 + ?s2)"
    using S_lo le1 by (intro mult_left_mono) auto
  with fs(1) have s_lo: "((1 - u) * N)\<^sup>2 \<le> ?s" by (simp add: power2_eq_square algebra_simps)
  have "(1 + u) * (?s1 + ?s2) \<le> (1 + u) * ((1 + u) * (N * N))"
    using S_hi u0 by (intro mult_left_mono) auto
  with fs(2) have s_hi: "?s \<le> ((1 + u) * N)\<^sup>2" by (simp add: power2_eq_square algebra_simps)
  have r_lo: "(1 - u) * N \<le> sqrt ?s"
  proof -
    have "sqrt (((1 - u) * N)\<^sup>2) \<le> sqrt ?s" using s_lo by (rule real_sqrt_le_mono)
    moreover have "0 \<le> (1 - u) * N" using le1 Npos by simp
    ultimately show ?thesis by simp
  qed
  have r_hi: "sqrt ?s \<le> (1 + u) * N"
  proof -
    have "sqrt ?s \<le> sqrt (((1 + u) * N)\<^sup>2)" using s_hi by (rule real_sqrt_le_mono)
    moreover have "0 \<le> (1 + u) * N" using u0 Npos by simp
    ultimately show ?thesis by simp
  qed
  have r0: "0 \<le> sqrt ?s" using fs(3) by simp
  note fd = rounds_nonneg [OF R le1 r0]
  have "(1 - u) * ((1 - u) * N) \<le> (1 - u) * sqrt ?s"
    using r_lo le1 by (intro mult_left_mono) auto
  with fd(1) show "(1 - u)\<^sup>2 * N \<le> D" by (simp add: D power2_eq_square algebra_simps)
  have "(1 + u) * sqrt ?s \<le> (1 + u) * ((1 + u) * N)"
    using r_hi u0 by (intro mult_left_mono) auto
  with fd(2) show "D \<le> (1 + u)\<^sup>2 * N" by (simp add: D power2_eq_square algebra_simps)
qed

lemma offset_factor:
  assumes R: "rounds_within u fl" and u0: "0 \<le> u" and u1: "u \<le> 1/16"
      and nz: "dx \<noteq> 0 \<or> dy \<noteq> 0"
      and N: "N = sqrt (dx * dx + dy * dy)"
      and D: "D = fl (sqrt (fl (fl (dx * dx) + fl (dy * dy))))"
  shows "\<bar>fl (fl (d / D) * r) - r * d / N\<bar> \<le> 5 * u * (\<bar>r\<bar> * \<bar>d\<bar> / N)"
proof -
  note df = distance_factor [OF R u0 u1 nz N D]
  have Dpos: "0 < D"
  proof -
    have "0 < (1 - u)\<^sup>2 * N" using df(1) u1 by simp
    with df(2) show ?thesis by linarith
  qed
  obtain e where e: "\<bar>e\<bar> \<le> u" "fl (d / D) = d / D * (1 + e)"
    by (rule rounds_factor [OF R u0])
  obtain e' where e': "\<bar>e'\<bar> \<le> u" "fl (fl (d / D) * r) = fl (d / D) * r * (1 + e')"
    by (rule rounds_factor [OF R u0])
  define \<rho> where "\<rho> = D / N"
  have rho: "(1 - u)\<^sup>2 \<le> \<rho>" "\<rho> \<le> (1 + u)\<^sup>2"
    using df by (simp_all add: \<rho>_def field_simps)
  define \<kappa> where "\<kappa> = (1 + e) * (1 + e') / \<rho>"
  have k: "\<bar>\<kappa> - 1\<bar> \<le> 5 * u"
    unfolding \<kappa>_def by (rule kappa_bound [OF u0 u1 e(1) e'(1) rho])
  have "fl (fl (d / D) * r) = d / D * (1 + e) * r * (1 + e')"
    using e'(2) by (simp only: e(2))
  also have "\<dots> = r * d / N * \<kappa>"
    using Dpos df(1) by (simp add: \<kappa>_def \<rho>_def field_simps)
  finally have "fl (fl (d / D) * r) = r * d / N * \<kappa>" .
  then have "fl (fl (d / D) * r) - r * d / N = r * d / N * (\<kappa> - 1)"
    by (simp add: right_diff_distrib)
  then have "\<bar>fl (fl (d / D) * r) - r * d / N\<bar> = (\<bar>r\<bar> * \<bar>d\<bar> / N) * \<bar>\<kappa> - 1\<bar>"
    using df(1) by (simp add: abs_mult)
  also have "\<dots> \<le> (\<bar>r\<bar> * \<bar>d\<bar> / N) * (5 * u)"
    using k df(1) by (intro mult_left_mono) auto
  finally show ?thesis by (simp add: mult.commute)
qed


lemma cmod_componentwise:
  assumes "\<bar>a\<bar> \<le> c * \<bar>x\<bar>" and "\<bar>b\<bar> \<le> c * \<bar>y\<bar>" and "0 \<le> c"
  shows "cmod (Complex a b) \<le> c * cmod (Complex x y)"
proof -
  have a: "a\<^sup>2 \<le> (c * \<bar>x\<bar>)\<^sup>2" using assms(1) by (metis abs_ge_zero power2_abs power_mono)
  have b: "b\<^sup>2 \<le> (c * \<bar>y\<bar>)\<^sup>2" using assms(2) by (metis abs_ge_zero power2_abs power_mono)
  have "a\<^sup>2 + b\<^sup>2 \<le> c\<^sup>2 * (x\<^sup>2 + y\<^sup>2)"
    using a b by (simp add: power_mult_distrib algebra_simps)
  then have "sqrt (a\<^sup>2 + b\<^sup>2) \<le> sqrt (c\<^sup>2 * (x\<^sup>2 + y\<^sup>2))" by (rule real_sqrt_le_mono)
  also have "\<dots> = c * sqrt (x\<^sup>2 + y\<^sup>2)" using assms(3) by (simp add: real_sqrt_mult)
  finally show ?thesis by (simp add: complex_norm)
qed

lemma offsets_vector:
  assumes R: "rounds_within u fl" and u0: "0 \<le> u" and u1: "u \<le> 1/16"
      and nz: "dx \<noteq> 0 \<or> dy \<noteq> 0" and r: "0 \<le> r"
      and N: "N = sqrt (dx * dx + dy * dy)"
      and D: "D = fl (sqrt (fl (fl (dx * dx) + fl (dy * dy))))"
  shows "cmod (Complex (fl (fl (dx / D) * r)) (fl (fl (dy / D) * r)) - of_real (r / N) * Complex dx dy) \<le> 5 * u * r"
    and "cmod (of_real (r / N) * Complex dx dy) = r"
proof -
  note df = distance_factor [OF R u0 u1 nz N D]
  have Nc: "cmod (Complex dx dy) = N" by (simp add: N complex_norm power2_eq_square)
  have c0: "0 \<le> 5 * u * r / N" using u0 r df(1) by simp
  have x: "\<bar>fl (fl (dx / D) * r) - r * dx / N\<bar> \<le> 5 * u * r / N * \<bar>dx\<bar>"
    using offset_factor [OF R u0 u1 nz N D, of dx r] r by (simp add: algebra_simps)
  have y: "\<bar>fl (fl (dy / D) * r) - r * dy / N\<bar> \<le> 5 * u * r / N * \<bar>dy\<bar>"
    using offset_factor [OF R u0 u1 nz N D, of dy r] r by (simp add: algebra_simps)
  have "Complex (fl (fl (dx / D) * r)) (fl (fl (dy / D) * r)) - of_real (r / N) * Complex dx dy
        = Complex (fl (fl (dx / D) * r) - r * dx / N) (fl (fl (dy / D) * r) - r * dy / N)"
    by (simp add: complex_eq_iff)
  also have "cmod \<dots> \<le> 5 * u * r / N * cmod (Complex dx dy)"
    by (rule cmod_componentwise [OF x y c0])
  also have "\<dots> = 5 * u * r" using df(1) by (simp add: Nc)
  finally show "cmod (Complex (fl (fl (dx / D) * r)) (fl (fl (dy / D) * r)) - of_real (r / N) * Complex dx dy) \<le> 5 * u * r" .
  have "cmod (of_real (r / N) * Complex dx dy) = \<bar>r / N\<bar> * N"
    by (simp only: norm_mult norm_of_real Nc)
  then show "cmod (of_real (r / N) * Complex dx dy) = r"
    using df(1) r by simp
qed

lemma rounded_offset:
  assumes R: "rounds_within u fl" and u0: "0 \<le> u" and u1: "u \<le> 1/16" and r: "0 \<le> r"
      and W: "cmod (W - I) \<le> 5 * u * r" and I: "cmod I = r"
      and X: "X = fl (cx + Re W)" and Y: "Y = fl (cy + Im W)"
  shows "cmod (Complex (X - cx) (Y - cy) - I) \<le> u * (\<bar>cx\<bar> + \<bar>cy\<bar> + 8 * r)"
proof -
  have Wn: "cmod W \<le> r + 5 * u * r"
    using norm_triangle_ineq [of I "W - I"] W I by simp
  have re: "\<bar>Re W\<bar> \<le> r + 5 * u * r" using abs_Re_le_cmod [of W] Wn by linarith
  have im: "\<bar>Im W\<bar> \<le> r + 5 * u * r" using abs_Im_le_cmod [of W] Wn by linarith
  define E where "E = Complex (X - (cx + Re W)) (Y - (cy + Im W))"
  have ex: "\<bar>X - (cx + Re W)\<bar> \<le> u * (\<bar>cx\<bar> + (r + 5 * u * r))"
  proof -
    have "\<bar>X - (cx + Re W)\<bar> \<le> u * \<bar>cx + Re W\<bar>" using R by (simp add: X rounds_within_def)
    also have "\<dots> \<le> u * (\<bar>cx\<bar> + (r + 5 * u * r))"
      using u0 re by (intro mult_left_mono) auto
    finally show ?thesis .
  qed
  have ey: "\<bar>Y - (cy + Im W)\<bar> \<le> u * (\<bar>cy\<bar> + (r + 5 * u * r))"
  proof -
    have "\<bar>Y - (cy + Im W)\<bar> \<le> u * \<bar>cy + Im W\<bar>" using R by (simp add: Y rounds_within_def)
    also have "\<dots> \<le> u * (\<bar>cy\<bar> + (r + 5 * u * r))"
      using u0 im by (intro mult_left_mono) auto
    finally show ?thesis .
  qed
  have "cmod E \<le> \<bar>Re E\<bar> + \<bar>Im E\<bar>" by (rule cmod_le)
  with ex ey have En: "cmod E \<le> u * (\<bar>cx\<bar> + \<bar>cy\<bar> + 2 * (r + 5 * u * r))"
    by (simp add: E_def algebra_simps)
  have eq: "Complex (X - cx) (Y - cy) - I = E + (W - I)" by (simp add: E_def complex_eq_iff)
  have "cmod (Complex (X - cx) (Y - cy) - I) \<le> cmod E + cmod (W - I)"
    unfolding eq by (rule norm_triangle_ineq)
  also have "\<dots> \<le> u * (\<bar>cx\<bar> + \<bar>cy\<bar> + 2 * (r + 5 * u * r)) + 5 * u * r" using En W by linarith
  also have "\<dots> \<le> u * (\<bar>cx\<bar> + \<bar>cy\<bar> + 8 * r)"
  proof -
    have "u * r * (10 * u) \<le> u * r * 1" using u0 u1 r by (intro mult_left_mono) auto
    then show ?thesis by (simp add: algebra_simps)
  qed
  finally show ?thesis .
qed

lemma sgn_diff_bound:
  fixes x y :: complex
  assumes "x \<noteq> 0" and "y \<noteq> 0"
  shows "cmod (x / of_real (cmod x) - y / of_real (cmod y)) \<le> 2 * cmod (x - y) / cmod x"
proof -
  let ?a = "cmod x" and ?b = "cmod y"
  have a: "0 < ?a" and b: "0 < ?b" using assms by simp_all
  have eq: "x / of_real ?a - y / of_real ?b = (x - y) / of_real ?a + of_real ((?b - ?a) / (?a * ?b)) * y"
    using a b assms by (simp add: field_simps)
  have "cmod (x / of_real ?a - y / of_real ?b) \<le> cmod ((x - y) / of_real ?a) + cmod (of_real ((?b - ?a) / (?a * ?b)) * y)"
    unfolding eq by (rule norm_triangle_ineq)
  moreover have "cmod ((x - y) / of_real ?a) = cmod (x - y) / ?a" by (simp add: norm_divide)
  moreover have "cmod (of_real ((?b - ?a) / (?a * ?b)) * y) = \<bar>?b - ?a\<bar> / ?a"
  proof -
    have "cmod (of_real ((?b - ?a) / (?a * ?b)) * y) = \<bar>(?b - ?a) / (?a * ?b)\<bar> * ?b"
      by (simp only: norm_mult norm_of_real)
    also have "\<dots> = \<bar>?b - ?a\<bar> / ?a" using a b by (simp add: abs_mult)
    finally show ?thesis .
  qed
  moreover have "\<bar>?b - ?a\<bar> / ?a \<le> cmod (x - y) / ?a"
  proof -
    have "\<bar>?b - ?a\<bar> \<le> cmod (x - y)" by (metis norm_triangle_ineq3 abs_minus_commute)
    then show ?thesis using a by (simp add: divide_right_mono)
  qed
  moreover have "2 * cmod (x - y) / ?a = cmod (x - y) / ?a + cmod (x - y) / ?a" by simp
  ultimately show ?thesis by linarith
qed


lemma connection_points_fl_vectors:
  assumes R: "rounds_within u fl" and u0: "0 \<le> u" and u1: "u \<le> 1/16"
      and nz: "x1 \<noteq> x2 \<or> y1 \<noteq> y2" and r1: "0 \<le> r1" and r2: "0 \<le> r2"
      and cp: "connection_points_fl fl x1 y1 r1 x2 y2 r2 = (fx, fy, tx, ty)"
      and L: "L = sqrt ((x2 - x1) * (x2 - x1) + (y2 - y1) * (y2 - y1))"
      and k: "k = (L - r1 - r2) / L"
  obtains I1 I2 where "cmod I1 = r1" and "cmod I2 = r2"
      and "cmod (Complex (fx - x1) (fy - y1) - I1) \<le> u * (\<bar>x1\<bar> + \<bar>y1\<bar> + 8 * r1)"
      and "cmod (Complex (tx - x2) (ty - y2) + I2) \<le> u * (\<bar>x2\<bar> + \<bar>y2\<bar> + 8 * r2)"
      and "cmod (of_real (1 - k) * Complex (x2 - x1) (y2 - y1) - I1 - I2) \<le> 2 * u * (r1 + r2)"
proof -
  define dx dy where "dx = fl (x2 - x1)" and "dy = fl (y2 - y1)"
  define N where "N = sqrt (dx * dx + dy * dy)"
  define D where "D = fl (sqrt (fl (fl (dx * dx) + fl (dy * dy))))"
  have le1: "u < 1" using u1 by simp
  have nz': "dx \<noteq> 0 \<or> dy \<noteq> 0"
  proof -
    have "a \<noteq> 0 \<Longrightarrow> fl a \<noteq> 0" for a
    proof
      assume "a \<noteq> 0" and "fl a = 0"
      with rounds_abs(2) [OF R, of a] have "(1 - u) * \<bar>a\<bar> \<le> 0" by simp
      moreover have "0 < (1 - u) * \<bar>a\<bar>" using le1 \<open>a \<noteq> 0\<close> by simp
      ultimately show False by linarith
    qed
    with nz show ?thesis unfolding dx_def dy_def by (metis right_minus_eq)
  qed
  have out: "fx = fl (x1 + fl (fl (dx / D) * r1))" "fy = fl (y1 + fl (fl (dy / D) * r1))"
            "tx = fl (x2 - fl (fl (dx / D) * r2))" "ty = fl (y2 - fl (fl (dy / D) * r2))"
    using cp by (simp_all add: connection_points_fl_def Let_def dx_def dy_def D_def)
  note df = distance_factor [OF R u0 u1 nz' N_def D_def]
  define V where "V = Complex dx dy"
  define C where "C = Complex (x2 - x1) (y2 - y1)"
  define W1 where "W1 = Complex (fl (fl (dx / D) * r1)) (fl (fl (dy / D) * r1))"
  define W2 where "W2 = Complex (fl (fl (dx / D) * r2)) (fl (fl (dy / D) * r2))"
  define I1 where "I1 = of_real (r1 / N) * V"
  define I2 where "I2 = of_real (r2 / N) * V"
  have o1: "cmod (W1 - I1) \<le> 5 * u * r1" "cmod I1 = r1"
    unfolding W1_def I1_def V_def by (rule offsets_vector [OF R u0 u1 nz' r1 N_def D_def])+
  have o2: "cmod (W2 - I2) \<le> 5 * u * r2" "cmod I2 = r2"
    unfolding W2_def I2_def V_def by (rule offsets_vector [OF R u0 u1 nz' r2 N_def D_def])+
  have a1: "cmod (Complex (fx - x1) (fy - y1) - I1) \<le> u * (\<bar>x1\<bar> + \<bar>y1\<bar> + 8 * r1)"
    by (rule rounded_offset [OF R u0 u1 r1 o1(1) o1(2)]) (simp_all add: out W1_def)
  have m2: "cmod (- W2 - (- I2)) \<le> 5 * u * r2" using o2(1) by (simp add: norm_minus_commute)
  have n2: "cmod (- I2) = r2" using o2(2) by simp
  have "cmod (Complex (tx - x2) (ty - y2) - (- I2)) \<le> u * (\<bar>x2\<bar> + \<bar>y2\<bar> + 8 * r2)"
    by (rule rounded_offset [OF R u0 u1 r2 m2 n2]) (simp_all add: out W2_def)
  then have a2: "cmod (Complex (tx - x2) (ty - y2) + I2) \<le> u * (\<bar>x2\<bar> + \<bar>y2\<bar> + 8 * r2)" by simp
  have Cn: "cmod C = L" by (simp add: C_def L complex_norm power2_eq_square)
  have Vn: "cmod V = N" by (simp add: V_def N_def complex_norm power2_eq_square)
  have C0: "C \<noteq> 0" using nz by (auto simp: C_def complex_eq_iff)
  have V0: "V \<noteq> 0" using nz' by (auto simp: V_def complex_eq_iff)
  have Lpos: "0 < L" using C0 Cn by (metis zero_less_norm_iff)
  have CV: "cmod (C - V) \<le> u * L"
  proof -
    have "\<bar>fl a - a\<bar> \<le> u * \<bar>a\<bar>" for a using R unfolding rounds_within_def by blast
    then have e: "\<bar>a - fl a\<bar> \<le> u * \<bar>a\<bar>" for a by (subst abs_minus_commute)
    have x: "\<bar>x2 - x1 - dx\<bar> \<le> u * \<bar>x2 - x1\<bar>" unfolding dx_def by (rule e)
    have y: "\<bar>y2 - y1 - dy\<bar> \<le> u * \<bar>y2 - y1\<bar>" unfolding dy_def by (rule e)
    have "C - V = Complex (x2 - x1 - dx) (y2 - y1 - dy)" by (simp add: C_def V_def complex_eq_iff)
    with cmod_componentwise [OF x y u0] show ?thesis by (simp add: Cn [unfolded C_def])
  qed
  have dir: "cmod (C / of_real L - V / of_real N) \<le> 2 * u"
  proof -
    have "cmod (C / of_real (cmod C) - V / of_real (cmod V)) \<le> 2 * cmod (C - V) / cmod C"
      by (rule sgn_diff_bound [OF C0 V0])
    also have "\<dots> \<le> 2 * u" using CV Lpos by (simp add: Cn field_simps)
    finally show ?thesis by (simp add: Cn Vn)
  qed
  have k1: "1 - k = (r1 + r2) / L" using Lpos by (simp add: k field_simps)
  have "of_real (1 - k) * C - I1 - I2 = of_real (r1 + r2) * (C / of_real L - V / of_real N)"
    using Lpos df(1) by (simp add: k1 I1_def I2_def field_simps)
  then have "cmod (of_real (1 - k) * C - I1 - I2) = \<bar>r1 + r2\<bar> * cmod (C / of_real L - V / of_real N)"
    by (simp only: norm_mult norm_of_real)
  also have "\<dots> \<le> (r1 + r2) * (2 * u)" using dir r1 r2 by (simp add: mult_left_mono)
  finally have a3: "cmod (of_real (1 - k) * C - I1 - I2) \<le> 2 * u * (r1 + r2)" by (simp add: mult.commute)
  show thesis by (rule that [OF o1(2) o2(2) a1 a2 a3 [unfolded C_def]])
qed


lemma connection_points_fl_tolerance:
  assumes R: "rounds_within u fl" and u0: "0 \<le> u" and u1: "u \<le> 1/16"
      and nz: "x1 \<noteq> x2 \<or> y1 \<noteq> y2" and r1: "0 \<le> r1" and r2: "0 \<le> r2"
      and cp: "connection_points_fl fl x1 y1 r1 x2 y2 r2 = (fx, fy, tx, ty)"
      and L: "L = sqrt ((x2 - x1) * (x2 - x1) + (y2 - y1) * (y2 - y1))"
      and k: "k = (L - r1 - r2) / L"
  shows "\<bar>sqrt ((fx - x1) * (fx - x1) + (fy - y1) * (fy - y1)) - r1\<bar> \<le> u * (\<bar>x1\<bar> + \<bar>y1\<bar> + 8 * r1)"
    and "\<bar>sqrt ((tx - x2) * (tx - x2) + (ty - y2) * (ty - y2)) - r2\<bar> \<le> u * (\<bar>x2\<bar> + \<bar>y2\<bar> + 8 * r2)"
    and "sqrt ((tx - fx - k * (x2 - x1)) * (tx - fx - k * (x2 - x1))
             + (ty - fy - k * (y2 - y1)) * (ty - fy - k * (y2 - y1)))
         \<le> u * (\<bar>x1\<bar> + \<bar>y1\<bar> + \<bar>x2\<bar> + \<bar>y2\<bar> + 10 * (r1 + r2))"
proof -
  obtain I1 I2 where I: "cmod I1 = r1" "cmod I2 = r2"
      and a1: "cmod (Complex (fx - x1) (fy - y1) - I1) \<le> u * (\<bar>x1\<bar> + \<bar>y1\<bar> + 8 * r1)"
      and a2: "cmod (Complex (tx - x2) (ty - y2) + I2) \<le> u * (\<bar>x2\<bar> + \<bar>y2\<bar> + 8 * r2)"
      and a3: "cmod (of_real (1 - k) * Complex (x2 - x1) (y2 - y1) - I1 - I2) \<le> 2 * u * (r1 + r2)"
    by (rule connection_points_fl_vectors [OF R u0 u1 nz r1 r2 cp L k])
  define P where "P = Complex (fx - x1) (fy - y1)"
  define Q where "Q = Complex (tx - x2) (ty - y2)"
  define Z where "Z = Complex (tx - fx - k * (x2 - x1)) (ty - fy - k * (y2 - y1))"
  have "\<bar>cmod P - cmod I1\<bar> \<le> cmod (P - I1)" by (rule norm_triangle_ineq3)
  with a1 have "\<bar>cmod P - r1\<bar> \<le> u * (\<bar>x1\<bar> + \<bar>y1\<bar> + 8 * r1)" by (simp add: I P_def)
  then show "\<bar>sqrt ((fx - x1) * (fx - x1) + (fy - y1) * (fy - y1)) - r1\<bar> \<le> u * (\<bar>x1\<bar> + \<bar>y1\<bar> + 8 * r1)"
    by (simp add: P_def complex_norm power2_eq_square)
  have "\<bar>cmod Q - cmod (- I2)\<bar> \<le> cmod (Q - (- I2))" by (rule norm_triangle_ineq3)
  with a2 have "\<bar>cmod Q - r2\<bar> \<le> u * (\<bar>x2\<bar> + \<bar>y2\<bar> + 8 * r2)" by (simp add: I Q_def)
  then show "\<bar>sqrt ((tx - x2) * (tx - x2) + (ty - y2) * (ty - y2)) - r2\<bar> \<le> u * (\<bar>x2\<bar> + \<bar>y2\<bar> + 8 * r2)"
    by (simp add: Q_def complex_norm power2_eq_square)
  define T where "T = of_real (1 - k) * Complex (x2 - x1) (y2 - y1) - I1 - I2"
  have "Z = (Q + I2) + (T - (P - I1))"
    by (simp add: Z_def Q_def P_def T_def complex_eq_iff algebra_simps)
  then have "cmod Z \<le> cmod (Q + I2) + cmod (T - (P - I1))" by (simp only: norm_triangle_ineq)
  also have "cmod (T - (P - I1)) \<le> cmod T + cmod (P - I1)" by (rule norm_triangle_ineq4)
  finally have "cmod Z \<le> cmod (Q + I2) + (cmod T + cmod (P - I1))" by simp
  with a1 a2 a3 have "cmod Z \<le> u * (\<bar>x1\<bar> + \<bar>y1\<bar> + \<bar>x2\<bar> + \<bar>y2\<bar> + 10 * (r1 + r2))"
    by (simp add: P_def Q_def T_def algebra_simps)
  then show "sqrt ((tx - fx - k * (x2 - x1)) * (tx - fx - k * (x2 - x1))
             + (ty - fy - k * (y2 - y1)) * (ty - fy - k * (y2 - y1)))
         \<le> u * (\<bar>x1\<bar> + \<bar>y1\<bar> + \<bar>x2\<bar> + \<bar>y2\<bar> + 10 * (r1 + r2))"
    by (simp add: Z_def complex_norm power2_eq_square)
qed

lemma rounds_within_id: "rounds_within 0 id"
  by (simp add: rounds_within_def)

lemma rounds_within_round53: "rounds_within (2 powr (- 53)) round53"
  unfolding rounds_within_def
proof
  fix x :: real
  show "\<bar>round53 x - x\<bar> \<le> 2 powr (- 53) * \<bar>x\<bar>"
  proof (cases "x = 0")
    case True
    then show ?thesis by (simp add: round53_def)
  next
    case False
    define t :: real where "t = of_int \<lfloor>log 2 \<bar>x\<bar>\<rfloor>"
    define s :: real where "s = 2 powr (t - 52)"
    have s: "0 < s" by (simp add: s_def)
    have "t \<le> log 2 \<bar>x\<bar>" by (simp add: t_def)
    then have "2 powr t \<le> 2 powr (log 2 \<bar>x\<bar>)" by simp
    then have t: "2 powr t \<le> \<bar>x\<bar>" using False by simp
    have r: "round53 x = of_int (round (x / s)) * s"
      using False by (simp add: round53_def s_def t_def Let_def)
    have "\<bar>of_int (round (x / s)) - x / s\<bar> \<le> 1 / 2" by (rule of_int_round_abs_le)
    then have "\<bar>of_int (round (x / s)) - x / s\<bar> * s \<le> 1 / 2 * s"
      using s by (intro mult_right_mono) auto
    moreover have "\<bar>of_int (round (x / s)) - x / s\<bar> * s = \<bar>round53 x - x\<bar>"
    proof -
      have "round53 x - x = (of_int (round (x / s)) - x / s) * s"
        using s by (simp add: r left_diff_distrib)
      then show ?thesis using s by (simp add: abs_mult)
    qed
    moreover have "1 / 2 * s = 2 powr (- 53) * 2 powr t"
    proof -
      have "(2::real) powr (- 1) = 1 / 2" by (simp add: powr_minus_divide)
      then have "1 / 2 * s = 2 powr (- 1) * 2 powr (t - 52)"
        by (simp add: s_def)
      also have "\<dots> = 2 powr (- 1 + (t - 52))" by (simp only: powr_add)
      also have "\<dots> = 2 powr (- 53 + t)" by simp
      also have "\<dots> = 2 powr (- 53) * 2 powr t" by (simp only: powr_add)
      finally show ?thesis .
    qed
    moreover have "2 powr (- 53) * 2 powr t \<le> 2 powr (- 53) * \<bar>x\<bar>"
      using t by (intro mult_left_mono) auto
    ultimately show ?thesis by linarith
  qed
qed

lemma roundoff53: "0 \<le> (2::real) powr (- 53)" "(2::real) powr (- 53) \<le> 1 / 16"
proof -
  show "0 \<le> (2::real) powr (- 53)" by simp
  have "(2::real) powr (- 53) \<le> 2 powr (- 4)" by (rule powr_mono) simp_all
  also have "(2::real) powr (- 4) = 1 / 16" by (simp add: powr_minus_divide)
  finally show "(2::real) powr (- 53) \<le> 1 / 16" .
qed

lemma connection_points_fl_id_ex:
  "connection_points_fl id 0 0 25 300 400 35 = (15, 20, 279, 372)"
proof -
  have "sqrt (250000::real) = 500" by (rule real_sqrt_unique) simp_all
  then show ?thesis by (simp add: connection_points_fl_def Let_def)
qed


lemma connection_points_fl_exact:
  assumes "x1 \<noteq> x2 \<or> y1 \<noteq> y2" and "\<forall>v. fl v = v"
    and "connection_points_fl fl x1 y1 r1 x2 y2 r2 = (fx, fy, tx, ty)"
  shows "connection_points (Fin x1) (Fin y1) (Fin r1) (Fin x2) (Fin y2) (Fin r2) =
           (Fin fx, Fin fy, Fin tx, Fin ty)"
  using connection_points_distinct(1) [OF assms(1) refl, of r1 r2] assms(2,3)
  by (simp add: connection_points_fl_def Let_def)

text \<open>
  C4, amended. The endpoints of a route with both nodes found are the values of
  \<open>C1 + d * r1\<close> and \<open>C2 - d * r2\<close>, \<open>d = (C2 - C1) / |C2 - C1|\<close>, that the six lines compute
  from the centres and radii of the two nodes, in the scene route of the first component
  and in the line drawn by the second. For finite, distinct centres at distance \<open>L\<close> and
  radii \<open>r1, r2 \<ge> 0\<close>, computed with an arithmetic that rounds within \<open>u\<close>:
  each endpoint is at the distance of its radius from its centre within the tolerance
  \<open>u * (|x| + |y| + 8 * r)\<close> of the centre \<open>(x, y)\<close> and radius \<open>r\<close>, and the segment from the
  first endpoint to the second is \<open>(L - r1 - r2) / L\<close> times the vector from centre to
  centre within \<open>u * (|x1| + |y1| + |x2| + |y2| + 10 * (r1 + r2))\<close>. That factor is
  positive exactly when the circles are apart, \<open>r1 + r2 < L\<close>, and negative exactly when
  they overlap: up to the tolerance the segment has the direction from centre to centre
  in the first case and the opposite direction in the second. Without rounding
  (\<open>fl\<close> the identity, \<open>u = 0\<close>) the values are those of \<open>connection_points\<close>.
\<close>

theorem trimmed_endpoints:
  assumes "rounds_within u fl" and "0 \<le> u" and "u \<le> 1/16"
    and "x1 \<noteq> x2 \<or> y1 \<noteq> y2" and "0 \<le> r1" and "0 \<le> r2"
    and "connection_points_fl fl x1 y1 r1 x2 y2 r2 = (fx, fy, tx, ty)"
    and "L = sqrt ((x2 - x1) * (x2 - x1) + (y2 - y1) * (y2 - y1))"
    and "k = (L - r1 - r2) / L"
  shows "\<bar>sqrt ((fx - x1) * (fx - x1) + (fy - y1) * (fy - y1)) - r1\<bar> \<le> u * (\<bar>x1\<bar> + \<bar>y1\<bar> + 8 * r1) \<and>
         \<bar>sqrt ((tx - x2) * (tx - x2) + (ty - y2) * (ty - y2)) - r2\<bar> \<le> u * (\<bar>x2\<bar> + \<bar>y2\<bar> + 8 * r2) \<and>
         sqrt ((tx - fx - k * (x2 - x1)) * (tx - fx - k * (x2 - x1))
               + (ty - fy - k * (y2 - y1)) * (ty - fy - k * (y2 - y1)))
           \<le> u * (\<bar>x1\<bar> + \<bar>y1\<bar> + \<bar>x2\<bar> + \<bar>y2\<bar> + 10 * (r1 + r2)) \<and>
         (0 < k \<longleftrightarrow> r1 + r2 < L) \<and>
         (k < 0 \<longleftrightarrow> L < r1 + r2) \<and>
         ((\<forall>v. fl v = v) \<longrightarrow>
            connection_points (Fin x1) (Fin y1) (Fin r1) (Fin x2) (Fin y2) (Fin r2) =
              (Fin fx, Fin fy, Fin tx, Fin ty)) \<and>
         (\<forall>nodes r a b.
            find (\<lambda>n. cn_id n = from_id r) nodes = Some a \<and> find (\<lambda>n. cn_id n = to_id r) nodes = Some b \<longrightarrow>
            (\<exists>e. adv_canvasRoute nodes r = Some e \<and>
                 (cr_fromX e, cr_fromY e, cr_toX e, cr_toY e) =
                   connection_points (cn_x a) (cn_y a) (cn_radius a) (cn_x b) (cn_y b) (cn_radius b))) \<and>
         (\<forall>nodes r a b.
            find (\<lambda>n. nn_id n = nr_fromNodeId r) nodes = Some a \<and>
            find (\<lambda>n. nn_id n = nr_toNodeId r) nodes = Some b \<longrightarrow>
            topo_drawRoute nodes r =
              Some (connection_points (nn_x a) (nn_y a) (nn_radius a) (nn_x b) (nn_y b) (nn_radius b)))"
proof -
  note tol = connection_points_fl_tolerance [OF assms]
  have L: "0 < L" using connection_points_distinct(2) [OF assms(4) assms(8)] .
  have same: "0 < k \<longleftrightarrow> r1 + r2 < L"
    using L by (auto simp: assms(9) zero_less_divide_iff)
  have opp: "k < 0 \<longleftrightarrow> L < r1 + r2"
    using L by (auto simp: assms(9) divide_less_0_iff)
  have exact: "(\<forall>v. fl v = v) \<longrightarrow>
            connection_points (Fin x1) (Fin y1) (Fin r1) (Fin x2) (Fin y2) (Fin r2) =
              (Fin fx, Fin fy, Fin tx, Fin ty)"
    using connection_points_fl_exact [OF assms(4) _ assms(7)] by blast
  have adv: "\<forall>nodes r a b.
            find (\<lambda>n. cn_id n = from_id r) nodes = Some a \<and> find (\<lambda>n. cn_id n = to_id r) nodes = Some b \<longrightarrow>
            (\<exists>e. adv_canvasRoute nodes r = Some e \<and>
                 (cr_fromX e, cr_fromY e, cr_toX e, cr_toY e) =
                   connection_points (cn_x a) (cn_y a) (cn_radius a) (cn_x b) (cn_y b) (cn_radius b))"
    using adv_canvasRoute_points by blast
  have topo: "\<forall>nodes r a b.
            find (\<lambda>n. nn_id n = nr_fromNodeId r) nodes = Some a \<and>
            find (\<lambda>n. nn_id n = nr_toNodeId r) nodes = Some b \<longrightarrow>
            topo_drawRoute nodes r =
              Some (connection_points (nn_x a) (nn_y a) (nn_radius a) (nn_x b) (nn_y b) (nn_radius b))"
    using topo_drawRoute_points by blast
  show ?thesis
    by (intro conjI tol same opp exact adv topo)
qed

text \<open>
  The examples: centres \<open>(0, 0)\<close> and \<open>(300, 400)\<close>, 500 apart, with radii 25 and 35 and
  no rounding; and the farm at \<open>(60, 540)\<close> and the plant at \<open>(740, 60)\<close> of the example
  scene, with radii 25 and 35 and every operation rounded to 53 bits.
\<close>

theorem trimmed_endpoints_witness:
  "rounds_within 0 id \<and>
   connection_points_fl id 0 0 25 300 400 35 = (15, 20, 279, 372) \<and>
   \<bar>sqrt ((15 - 0) * (15 - 0) + (20 - 0) * (20 - 0)) - 25\<bar> \<le> (0::real) \<and>
   \<bar>sqrt ((279 - 300) * (279 - 300) + (372 - 400) * (372 - 400)) - 35\<bar> \<le> (0::real) \<and>
   sqrt ((279 - 15 - (500 - 25 - 35) / 500 * (300 - 0)) * (279 - 15 - (500 - 25 - 35) / 500 * (300 - 0))
         + (372 - 20 - (500 - 25 - 35) / 500 * (400 - 0)) * (372 - 20 - (500 - 25 - 35) / 500 * (400 - 0)))
     \<le> (0::real) \<and>
   connection_points (Fin 0) (Fin 0) (Fin 25) (Fin 300) (Fin 400) (Fin 35) =
     (Fin 15, Fin 20, Fin 279, Fin 372) \<and>
   rounds_within (2 powr (- 53)) round53 \<and>
   \<bar>sqrt ((fst (connection_points_fl round53 60 540 25 740 60 35) - 60)
           * (fst (connection_points_fl round53 60 540 25 740 60 35) - 60)
         + (fst (snd (connection_points_fl round53 60 540 25 740 60 35)) - 540)
           * (fst (snd (connection_points_fl round53 60 540 25 740 60 35)) - 540)) - 25\<bar>
     \<le> 2 powr (- 53) * 800 \<and>
   \<bar>sqrt ((fst (snd (snd (connection_points_fl round53 60 540 25 740 60 35))) - 740)
           * (fst (snd (snd (connection_points_fl round53 60 540 25 740 60 35))) - 740)
         + (snd (snd (snd (connection_points_fl round53 60 540 25 740 60 35))) - 60)
           * (snd (snd (snd (connection_points_fl round53 60 540 25 740 60 35))) - 60)) - 35\<bar>
     \<le> 2 powr (- 53) * 1080"
proof -
  have L: "(500::real) = sqrt ((300 - 0) * (300 - 0) + (400 - 0) * (400 - 0))" by simp
  have k: "(500 - 25 - 35) / 500 = ((500::real) - 25 - 35) / 500" by simp
  let ?cp = "connection_points_fl round53 60 540 25 740 60 35"
  have cp: "?cp = (fst ?cp, fst (snd ?cp), fst (snd (snd ?cp)), snd (snd (snd ?cp)))"
    by simp
  note exact = trimmed_endpoints [OF rounds_within_id _ _ _ _ _ connection_points_fl_id_ex L k]
  note rounded = trimmed_endpoints [OF rounds_within_round53 roundoff53 _ _ _ cp refl refl]
  have r: "\<bar>sqrt ((fst ?cp - 60) * (fst ?cp - 60) + (fst (snd ?cp) - 540) * (fst (snd ?cp) - 540)) - 25\<bar>
             \<le> 2 powr (- 53) * 800"
    "\<bar>sqrt ((fst (snd (snd ?cp)) - 740) * (fst (snd (snd ?cp)) - 740)
           + (snd (snd (snd ?cp)) - 60) * (snd (snd (snd ?cp)) - 60)) - 35\<bar>
             \<le> 2 powr (- 53) * 1080"
    using rounded by simp_all
  show ?thesis
    using exact r rounds_within_id rounds_within_round53 connection_points_fl_id_ex
    by simp
qed

section \<open>Pointer position\<close>





section \<open>Bounds of a list of numbers\<close>

lemma jsnum_le_refl: "\<not> isNaN a \<Longrightarrow> a \<le> a"
  by (cases a) simp_all

lemma jsnum_le_trans: "a \<le> b \<Longrightarrow> b \<le> c \<Longrightarrow> a \<le> (c::jsnum)"
  by (cases a; cases b; cases c) simp_all

lemma jsnum_le_total: "\<not> isNaN a \<Longrightarrow> \<not> isNaN b \<Longrightarrow> a \<le> b \<or> b \<le> (a::jsnum)"
  by (cases a; cases b) auto

lemma jsnum_le_not_NaN: "a \<le> b \<Longrightarrow> \<not> isNaN a \<and> \<not> isNaN (b::jsnum)"
  by (cases a; cases b) simp_all

lemma in_range_iff: "(Fin lo \<le> v \<and> v \<le> Fin hi) = (\<exists>u. v = Fin u \<and> lo \<le> u \<and> u \<le> hi)"
  by (cases v) auto

lemma Math_min_NaN: "NaN \<in> set vs \<Longrightarrow> Math_min vs = NaN"
  by (induction vs) (auto simp: Math_min_def min2_def)

lemma Math_max_NaN: "NaN \<in> set vs \<Longrightarrow> Math_max vs = NaN"
  by (induction vs) (auto simp: Math_max_def max2_def)

lemma Math_min_lower:
  "NaN \<notin> set vs \<Longrightarrow> \<not> isNaN (Math_min vs) \<and> (\<forall>v \<in> set vs. Math_min vs \<le> v)"
proof (induction vs)
  case Nil
  show ?case by (simp add: Math_min_def)
next
  case (Cons a vs)
  then have IH: "\<not> isNaN (Math_min vs)" "\<forall>v \<in> set vs. Math_min vs \<le> v" by simp_all
  have a: "\<not> isNaN a" using Cons.prems by (cases a) simp_all
  have unfold: "Math_min (a # vs) = (if a \<le> Math_min vs then a else Math_min vs)"
    using a IH(1) by (simp add: Math_min_def min2_def)
  show ?case
  proof (cases "a \<le> Math_min vs")
    case True
    then show ?thesis
      using unfold a IH(2) jsnum_le_refl[OF a] by (auto intro: jsnum_le_trans)
  next
    case False
    then have "Math_min vs \<le> a" using jsnum_le_total[OF a IH(1)] by simp
    then show ?thesis using unfold False IH by auto
  qed
qed

lemma Math_max_upper:
  "NaN \<notin> set vs \<Longrightarrow> \<not> isNaN (Math_max vs) \<and> (\<forall>v \<in> set vs. v \<le> Math_max vs)"
proof (induction vs)
  case Nil
  show ?case by (simp add: Math_max_def)
next
  case (Cons a vs)
  then have IH: "\<not> isNaN (Math_max vs)" "\<forall>v \<in> set vs. v \<le> Math_max vs" by simp_all
  have a: "\<not> isNaN a" using Cons.prems by (cases a) simp_all
  have unfold: "Math_max (a # vs) = (if Math_max vs \<le> a then a else Math_max vs)"
    using a IH(1) by (simp add: Math_max_def max2_def)
  show ?case
  proof (cases "Math_max vs \<le> a")
    case True
    then show ?thesis
      using unfold a IH(2) jsnum_le_refl[OF a] by (auto intro: jsnum_le_trans)
  next
    case False
    then have "a \<le> Math_max vs" using jsnum_le_total[OF IH(1) a] by simp
    then show ?thesis using unfold False IH by auto
  qed
qed

section \<open>The quotient of the projection\<close>

lemma real_unit_quotient:
  "lo \<le> a \<Longrightarrow> a \<le> hi \<Longrightarrow> hi \<noteq> lo \<Longrightarrow> 0 \<le> (a - lo) / (hi - lo) \<and> (a - lo) / (hi - lo) \<le> (1::real)"
  by (simp add: divide_le_eq_1)

lemma real_unit_quotient':
  "lo \<le> a \<Longrightarrow> a \<le> hi \<Longrightarrow> hi \<noteq> lo \<Longrightarrow> 0 \<le> (hi - a) / (hi - lo) \<and> (hi - a) / (hi - lo) \<le> (1::real)"
  by (simp add: divide_le_eq_1)

text \<open>
  For a value between the bounds the quotient is \<open>NaN\<close> or a number of \<open>[0, 1]\<close>: it is
  never infinite, whatever the three numbers are.
\<close>

lemma unit_quotient:
  assumes "lo \<le> a" and "a \<le> (hi::jsnum)"
  shows "(a - lo) / (hi - lo) = NaN \<or> (\<exists>t. (a - lo) / (hi - lo) = Fin t \<and> 0 \<le> t \<and> t \<le> 1)"
    and "(hi - a) / (hi - lo) = NaN \<or> (\<exists>t. (hi - a) / (hi - lo) = Fin t \<and> 0 \<le> t \<and> t \<le> 1)"
  using assms real_unit_quotient real_unit_quotient'
  by (cases a; cases lo; cases hi; auto simp: minus_jsnum_def)+

lemma unit_quotient_list:
  assumes "v \<in> set vs"
  shows "(v - Math_min vs) / (Math_max vs - Math_min vs) = NaN \<or>
         (\<exists>t. (v - Math_min vs) / (Math_max vs - Math_min vs) = Fin t \<and> 0 \<le> t \<and> t \<le> 1)"
    and "(Math_max vs - v) / (Math_max vs - Math_min vs) = NaN \<or>
         (\<exists>t. (Math_max vs - v) / (Math_max vs - Math_min vs) = Fin t \<and> 0 \<le> t \<and> t \<le> 1)"
proof -
  show "(v - Math_min vs) / (Math_max vs - Math_min vs) = NaN \<or>
         (\<exists>t. (v - Math_min vs) / (Math_max vs - Math_min vs) = Fin t \<and> 0 \<le> t \<and> t \<le> 1)"
  proof (cases "NaN \<in> set vs")
    case True
    then show ?thesis by (simp add: Math_min_NaN)
  next
    case False
    then show ?thesis
      using unit_quotient(1)[of "Math_min vs" v "Math_max vs"] Math_min_lower[OF False]
        Math_max_upper[OF False] assms by blast
  qed
  show "(Math_max vs - v) / (Math_max vs - Math_min vs) = NaN \<or>
         (\<exists>t. (Math_max vs - v) / (Math_max vs - Math_min vs) = Fin t \<and> 0 \<le> t \<and> t \<le> 1)"
  proof (cases "NaN \<in> set vs")
    case True
    then show ?thesis by (simp add: Math_min_NaN Math_max_NaN)
  next
    case False
    then show ?thesis
      using unit_quotient(2)[of "Math_min vs" v "Math_max vs"] Math_min_lower[OF False]
        Math_max_upper[OF False] assms by blast
  qed
qed

section \<open>Projected coordinates\<close>

lemma affine_in_range:
  assumes "q = NaN \<or> (\<exists>t. q = Fin t \<and> 0 \<le> t \<and> t \<le> 1)" and "0 \<le> w"
  shows "Fin p + q * Fin w = NaN \<or> (Fin p \<le> Fin p + q * Fin w \<and> Fin p + q * Fin w \<le> Fin (p + w))"
proof -
  have "0 \<le> t \<Longrightarrow> t \<le> 1 \<Longrightarrow> t * w \<le> w" for t
    using assms(2) by (simp add: mult_left_le_one_le)
  then show ?thesis using assms by auto
qed

lemma nan_fallback_in_range:
  assumes "unit_interval rnd" and "0 \<le> w"
    and "v = NaN \<or> (Fin p \<le> v \<and> v \<le> Fin (p + w))"
  shows "Fin p \<le> fst (nan_fallback rnd (Fin w) (Fin p) v k) \<and>
         fst (nan_fallback rnd (Fin w) (Fin p) v k) \<le> Fin (p + w)"
proof (cases "isNaN v")
  case True
  have "0 \<le> rnd k" "rnd k \<le> 1" using assms(1) by (auto simp: unit_interval_def less_imp_le)
  then have "0 \<le> rnd k * w" "rnd k * w \<le> w"
    using assms(2) by (simp_all add: mult_left_le_one_le)
  then show ?thesis using True by (simp add: nan_fallback_def Math_random_def)
next
  case False
  then show ?thesis using assms(3) by (auto simp: nan_fallback_def)
qed

lemma Fin_minus [simp]: "Fin a - Fin b = Fin (a - b)"
  by (simp add: minus_jsnum_def)

text \<open>
  The coordinates before the fallback, with the bounds taken from the list the node is
  in: each is \<open>NaN\<close> or lies within the padding, and so is never infinite.
\<close>

lemma adv_projected_xy_range:
  assumes "unit_interval rnd" and "n \<in> set ns"
    and "xy = fst (adv_projected_xy rnd (Math_min (map lat ns)) (Math_max (map lat ns))
                     (Math_min (map lng ns)) (Math_max (map lng ns)) n k)"
  shows "fst xy = NaN \<or> (Fin 60 \<le> fst xy \<and> fst xy \<le> Fin 740)"
    and "snd xy = NaN \<or> (Fin 60 \<le> snd xy \<and> snd xy \<le> Fin 540)"
proof -
  have r: "0 \<le> rnd j" "rnd j < 1" for j using assms(1) by (auto simp: unit_interval_def)
  have qx: "(lng n - Math_min (map lng ns)) / (Math_max (map lng ns) - Math_min (map lng ns)) = NaN \<or>
            (\<exists>t. (lng n - Math_min (map lng ns)) / (Math_max (map lng ns) - Math_min (map lng ns)) = Fin t \<and> 0 \<le> t \<and> t \<le> 1)"
    by (rule unit_quotient_list(1)) (use assms(2) in simp)
  have qy: "(Math_max (map lat ns) - lat n) / (Math_max (map lat ns) - Math_min (map lat ns)) = NaN \<or>
            (\<exists>t. (Math_max (map lat ns) - lat n) / (Math_max (map lat ns) - Math_min (map lat ns)) = Fin t \<and> 0 \<le> t \<and> t \<le> 1)"
    by (rule unit_quotient_list(2)) (use assms(2) in simp)
  show "fst xy = NaN \<or> (Fin 60 \<le> fst xy \<and> fst xy \<le> Fin 740)"
  proof (cases "strict_eq (Math_max (map lng ns)) (Math_min (map lng ns)) \<or>
                strict_eq (Math_max (map lat ns)) (Math_min (map lat ns))")
    case True
    then have "fst xy = Fin (800 / 2 + (rnd k - 0.5) * 200)"
      using assms(3) by (simp add: adv_projected_xy_def Math_random_def minus_jsnum_def Let_def)
    then show ?thesis using r[of k] by simp
  next
    case False
    then have "fst xy = Fin 60 + (lng n - Math_min (map lng ns)) / (Math_max (map lng ns) - Math_min (map lng ns)) * Fin 680"
      using assms(3) by (simp add: adv_projected_xy_def)
    then show ?thesis using affine_in_range[OF qx, of 680 60] by simp
  qed
  show "snd xy = NaN \<or> (Fin 60 \<le> snd xy \<and> snd xy \<le> Fin 540)"
  proof (cases "strict_eq (Math_max (map lng ns)) (Math_min (map lng ns)) \<or>
                strict_eq (Math_max (map lat ns)) (Math_min (map lat ns))")
    case True
    then have "snd xy = Fin (600 / 2 + (rnd (Suc k) - 0.5) * 200)"
      using assms(3) by (simp add: adv_projected_xy_def Math_random_def minus_jsnum_def Let_def)
    then show ?thesis using r[of "Suc k"] by simp
  next
    case False
    then have "snd xy = Fin 60 + (Math_max (map lat ns) - lat n) / (Math_max (map lat ns) - Math_min (map lat ns)) * Fin 480"
      using assms(3) by (simp add: adv_projected_xy_def)
    then show ?thesis using affine_in_range[OF qy, of 480 60] by simp
  qed
qed

lemma topo_projected_xy_range:
  assumes "n \<in> set ns"
    and "xy = topo_projected_xy (Math_min (map lat ns)) (Math_max (map lat ns))
                (Math_min (map lng ns)) (Math_max (map lng ns)) n"
  shows "fst xy = NaN \<or> (Fin 50 \<le> fst xy \<and> fst xy \<le> Fin 750)"
    and "snd xy = NaN \<or> (Fin 50 \<le> snd xy \<and> snd xy \<le> Fin 550)"
proof -
  have qx: "(lng n - Math_min (map lng ns)) / (Math_max (map lng ns) - Math_min (map lng ns)) = NaN \<or>
            (\<exists>t. (lng n - Math_min (map lng ns)) / (Math_max (map lng ns) - Math_min (map lng ns)) = Fin t \<and> 0 \<le> t \<and> t \<le> 1)"
    by (rule unit_quotient_list(1)) (use assms(1) in simp)
  have qy: "(Math_max (map lat ns) - lat n) / (Math_max (map lat ns) - Math_min (map lat ns)) = NaN \<or>
            (\<exists>t. (Math_max (map lat ns) - lat n) / (Math_max (map lat ns) - Math_min (map lat ns)) = Fin t \<and> 0 \<le> t \<and> t \<le> 1)"
    by (rule unit_quotient_list(2)) (use assms(1) in simp)
  have "fst xy = Fin 50 + (lng n - Math_min (map lng ns)) / (Math_max (map lng ns) - Math_min (map lng ns)) * Fin 700"
    using assms(2) by (simp add: topo_projected_xy_def)
  then show "fst xy = NaN \<or> (Fin 50 \<le> fst xy \<and> fst xy \<le> Fin 750)"
    using affine_in_range[OF qx, of 700 50] by simp
  have "snd xy = Fin 50 + (Math_max (map lat ns) - lat n) / (Math_max (map lat ns) - Math_min (map lat ns)) * Fin 500"
    using assms(2) by (simp add: topo_projected_xy_def)
  then show "snd xy = NaN \<or> (Fin 50 \<le> snd xy \<and> snd xy \<le> Fin 550)"
    using affine_in_range[OF qy, of 500 50] by simp
qed

lemma adv_canvasNode_range:
  assumes "unit_interval rnd" and "n \<in> set ns"
    and "c = fst (adv_canvasNode rnd (Math_min (map lat ns)) (Math_max (map lat ns))
                    (Math_min (map lng ns)) (Math_max (map lng ns)) n k)"
  shows "Fin 60 \<le> cn_x c \<and> cn_x c \<le> Fin 740 \<and> Fin 60 \<le> cn_y c \<and> cn_y c \<le> Fin 540"
proof -
  obtain x y k1 where raw: "adv_projected_xy rnd (Math_min (map lat ns)) (Math_max (map lat ns))
                     (Math_min (map lng ns)) (Math_max (map lng ns)) n k = ((x, y), k1)"
    by (metis prod.exhaust)
  obtain x' k2 where fx: "nan_fallback rnd (Fin 680) (Fin 60) x k1 = (x', k2)"
    by (metis prod.exhaust)
  obtain y' k3 where fy: "nan_fallback rnd (Fin 480) (Fin 60) y k2 = (y', k3)"
    by (metis prod.exhaust)
  have xr: "x = NaN \<or> (Fin 60 \<le> x \<and> x \<le> Fin (60 + 680))"
    using adv_projected_xy_range(1)[OF assms(1,2) refl, of k] raw by simp
  have yr: "y = NaN \<or> (Fin 60 \<le> y \<and> y \<le> Fin (60 + 480))"
    using adv_projected_xy_range(2)[OF assms(1,2) refl, of k] raw by simp
  have "Fin 60 \<le> x' \<and> x' \<le> Fin 740"
    using nan_fallback_in_range[OF assms(1) _ xr, of k1] fx by simp
  moreover have "Fin 60 \<le> y' \<and> y' \<le> Fin 540"
    using nan_fallback_in_range[OF assms(1) _ yr, of k2] fy by simp
  moreover have "cn_x c = x'" "cn_y c = y'"
    using assms(3) raw fx fy by (simp_all add: adv_canvasNode_def Let_def)
  ultimately show ?thesis by simp
qed

lemma topo_networkNode_range:
  assumes "unit_interval rnd" and "n \<in> set ns"
    and "c = fst (topo_networkNode rnd (Math_min (map lat ns)) (Math_max (map lat ns))
                    (Math_min (map lng ns)) (Math_max (map lng ns)) n k)"
  shows "Fin 50 \<le> nn_x c \<and> nn_x c \<le> Fin 750 \<and> Fin 50 \<le> nn_y c \<and> nn_y c \<le> Fin 550"
proof -
  obtain x y where raw: "topo_projected_xy (Math_min (map lat ns)) (Math_max (map lat ns))
                     (Math_min (map lng ns)) (Math_max (map lng ns)) n = (x, y)"
    by (metis prod.exhaust)
  obtain x' k1 where fx: "nan_fallback rnd (Fin 700) (Fin 50) x k = (x', k1)"
    by (metis prod.exhaust)
  obtain y' k2 where fy: "nan_fallback rnd (Fin 500) (Fin 50) y k1 = (y', k2)"
    by (metis prod.exhaust)
  have xr: "x = NaN \<or> (Fin 50 \<le> x \<and> x \<le> Fin (50 + 700))"
    using topo_projected_xy_range(1)[OF assms(2) refl] raw by simp
  have yr: "y = NaN \<or> (Fin 50 \<le> y \<and> y \<le> Fin (50 + 500))"
    using topo_projected_xy_range(2)[OF assms(2) refl] raw by simp
  have "Fin 50 \<le> x' \<and> x' \<le> Fin 750"
    using nan_fallback_in_range[OF assms(1) _ xr, of k] fx by simp
  moreover have "Fin 50 \<le> y' \<and> y' \<le> Fin 550"
    using nan_fallback_in_range[OF assms(1) _ yr, of k1] fy by simp
  moreover have "nn_x c = x'" "nn_y c = y'"
    using assms(3) raw fx fy by (simp_all add: topo_networkNode_def Let_def)
  ultimately show ?thesis by simp
qed











lemma in_range_finite: "Fin lo \<le> v \<Longrightarrow> v \<le> Fin hi \<Longrightarrow> isFinite v"
  by (cases v) simp_all

text \<open>
  C8. Whatever the latitudes and longitudes are (finite or not, equal or not), every
  node of the scene has finite coordinates within the padding. Before the fallback a
  coordinate of a listed node is \<open>NaN\<close> or finite, never infinite, so the \<open>isNaN\<close> test
  catches every coordinate that is not finite; the fallback replaces \<open>NaN\<close> by the next
  random number scaled into \<open>[padding, padding + extent)\<close> and leaves every other value
  as it is. The random source returns numbers of \<open>[0, 1)\<close>.
\<close>

theorem no_non_finite_coordinates:
  assumes "unit_interval rnd"
    and "minLat = Math_min (map lat ns)" and "maxLat = Math_max (map lat ns)"
    and "minLng = Math_min (map lng ns)" and "maxLng = Math_max (map lng ns)"
  shows "(\<forall>c \<in> set (fst (newCanvasNodes rnd ns k)).
            isFinite (cn_x c) \<and> isFinite (cn_y c) \<and>
            Fin 60 \<le> cn_x c \<and> cn_x c \<le> Fin 740 \<and> Fin 60 \<le> cn_y c \<and> cn_y c \<le> Fin 540) \<and>
         (\<forall>c \<in> set (fst (networkNodes rnd ns k)).
            isFinite (nn_x c) \<and> isFinite (nn_y c) \<and>
            Fin 50 \<le> nn_x c \<and> nn_x c \<le> Fin 750 \<and> Fin 50 \<le> nn_y c \<and> nn_y c \<le> Fin 550) \<and>
         (\<forall>n \<in> set ns. \<forall>j.
            (isNaN (fst (fst (adv_projected_xy rnd minLat maxLat minLng maxLng n j))) \<or>
             isFinite (fst (fst (adv_projected_xy rnd minLat maxLat minLng maxLng n j)))) \<and>
            (isNaN (snd (fst (adv_projected_xy rnd minLat maxLat minLng maxLng n j))) \<or>
             isFinite (snd (fst (adv_projected_xy rnd minLat maxLat minLng maxLng n j)))) \<and>
            (isNaN (fst (topo_projected_xy minLat maxLat minLng maxLng n)) \<or>
             isFinite (fst (topo_projected_xy minLat maxLat minLng maxLng n))) \<and>
            (isNaN (snd (topo_projected_xy minLat maxLat minLng maxLng n)) \<or>
             isFinite (snd (topo_projected_xy minLat maxLat minLng maxLng n)))) \<and>
         (\<forall>w p j. 0 < w \<longrightarrow>
            nan_fallback rnd (Fin w) (Fin p) NaN j = (Fin (rnd j * w + p), Suc j) \<and>
            p \<le> rnd j * w + p \<and> rnd j * w + p < p + w) \<and>
         (\<forall>extent p v j. \<not> isNaN v \<longrightarrow> nan_fallback rnd extent p v j = (v, j))"
proof -
  have adv: "\<forall>c \<in> set (fst (newCanvasNodes rnd ns k)).
            isFinite (cn_x c) \<and> isFinite (cn_y c) \<and>
            Fin 60 \<le> cn_x c \<and> cn_x c \<le> Fin 740 \<and> Fin 60 \<le> cn_y c \<and> cn_y c \<le> Fin 540"
    unfolding newCanvasNodes_def Let_def
  proof (rule map_drawing_all)
    fix n j assume "n \<in> set ns"
    from adv_canvasNode_range[OF assms(1) this refl, of j]
    show "isFinite (cn_x (fst (adv_canvasNode rnd (Math_min (map lat ns)) (Math_max (map lat ns))
                                  (Math_min (map lng ns)) (Math_max (map lng ns)) n j))) \<and>
          isFinite (cn_y (fst (adv_canvasNode rnd (Math_min (map lat ns)) (Math_max (map lat ns))
                                  (Math_min (map lng ns)) (Math_max (map lng ns)) n j))) \<and>
          Fin 60 \<le> cn_x (fst (adv_canvasNode rnd (Math_min (map lat ns)) (Math_max (map lat ns))
                                  (Math_min (map lng ns)) (Math_max (map lng ns)) n j)) \<and>
          cn_x (fst (adv_canvasNode rnd (Math_min (map lat ns)) (Math_max (map lat ns))
                                  (Math_min (map lng ns)) (Math_max (map lng ns)) n j)) \<le> Fin 740 \<and>
          Fin 60 \<le> cn_y (fst (adv_canvasNode rnd (Math_min (map lat ns)) (Math_max (map lat ns))
                                  (Math_min (map lng ns)) (Math_max (map lng ns)) n j)) \<and>
          cn_y (fst (adv_canvasNode rnd (Math_min (map lat ns)) (Math_max (map lat ns))
                                  (Math_min (map lng ns)) (Math_max (map lng ns)) n j)) \<le> Fin 540"
      by (blast intro: in_range_finite)
  qed
  have topo: "\<forall>c \<in> set (fst (networkNodes rnd ns k)).
            isFinite (nn_x c) \<and> isFinite (nn_y c) \<and>
            Fin 50 \<le> nn_x c \<and> nn_x c \<le> Fin 750 \<and> Fin 50 \<le> nn_y c \<and> nn_y c \<le> Fin 550"
    unfolding networkNodes_def Let_def
  proof (rule map_drawing_all)
    fix n j assume "n \<in> set ns"
    from topo_networkNode_range[OF assms(1) this refl, of j]
    show "isFinite (nn_x (fst (topo_networkNode rnd (Math_min (map lat ns)) (Math_max (map lat ns))
                                  (Math_min (map lng ns)) (Math_max (map lng ns)) n j))) \<and>
          isFinite (nn_y (fst (topo_networkNode rnd (Math_min (map lat ns)) (Math_max (map lat ns))
                                  (Math_min (map lng ns)) (Math_max (map lng ns)) n j))) \<and>
          Fin 50 \<le> nn_x (fst (topo_networkNode rnd (Math_min (map lat ns)) (Math_max (map lat ns))
                                  (Math_min (map lng ns)) (Math_max (map lng ns)) n j)) \<and>
          nn_x (fst (topo_networkNode rnd (Math_min (map lat ns)) (Math_max (map lat ns))
                                  (Math_min (map lng ns)) (Math_max (map lng ns)) n j)) \<le> Fin 750 \<and>
          Fin 50 \<le> nn_y (fst (topo_networkNode rnd (Math_min (map lat ns)) (Math_max (map lat ns))
                                  (Math_min (map lng ns)) (Math_max (map lng ns)) n j)) \<and>
          nn_y (fst (topo_networkNode rnd (Math_min (map lat ns)) (Math_max (map lat ns))
                                  (Math_min (map lng ns)) (Math_max (map lng ns)) n j)) \<le> Fin 550"
      by (blast intro: in_range_finite)
  qed
  have raw: "\<forall>n \<in> set ns. \<forall>j.
            (isNaN (fst (fst (adv_projected_xy rnd minLat maxLat minLng maxLng n j))) \<or>
             isFinite (fst (fst (adv_projected_xy rnd minLat maxLat minLng maxLng n j)))) \<and>
            (isNaN (snd (fst (adv_projected_xy rnd minLat maxLat minLng maxLng n j))) \<or>
             isFinite (snd (fst (adv_projected_xy rnd minLat maxLat minLng maxLng n j)))) \<and>
            (isNaN (fst (topo_projected_xy minLat maxLat minLng maxLng n)) \<or>
             isFinite (fst (topo_projected_xy minLat maxLat minLng maxLng n))) \<and>
            (isNaN (snd (topo_projected_xy minLat maxLat minLng maxLng n)) \<or>
             isFinite (snd (topo_projected_xy minLat maxLat minLng maxLng n)))"
  proof (intro ballI allI)
    fix n j assume n: "n \<in> set ns"
    have nan_or_fin: "v = NaN \<or> (Fin lo \<le> v \<and> v \<le> Fin hi) \<Longrightarrow> isNaN v \<or> isFinite v" for v lo hi
      by (cases v) simp_all
    show "(isNaN (fst (fst (adv_projected_xy rnd minLat maxLat minLng maxLng n j))) \<or>
             isFinite (fst (fst (adv_projected_xy rnd minLat maxLat minLng maxLng n j)))) \<and>
            (isNaN (snd (fst (adv_projected_xy rnd minLat maxLat minLng maxLng n j))) \<or>
             isFinite (snd (fst (adv_projected_xy rnd minLat maxLat minLng maxLng n j)))) \<and>
            (isNaN (fst (topo_projected_xy minLat maxLat minLng maxLng n)) \<or>
             isFinite (fst (topo_projected_xy minLat maxLat minLng maxLng n))) \<and>
            (isNaN (snd (topo_projected_xy minLat maxLat minLng maxLng n)) \<or>
             isFinite (snd (topo_projected_xy minLat maxLat minLng maxLng n)))"
      unfolding assms(2-5)
      using adv_projected_xy_range[OF assms(1) n refl, of j] topo_projected_xy_range[OF n refl]
      by (intro conjI nan_or_fin)
  qed
  have r: "0 \<le> rnd j" "rnd j < 1" for j using assms(1) by (auto simp: unit_interval_def)
  have fb: "\<forall>w p j. 0 < w \<longrightarrow>
            nan_fallback rnd (Fin w) (Fin p) NaN j = (Fin (rnd j * w + p), Suc j) \<and>
            p \<le> rnd j * w + p \<and> rnd j * w + p < p + w"
    using r by (simp add: nan_fallback_def Math_random_def)
  have keep: "\<forall>extent p v j. \<not> isNaN v \<longrightarrow> nan_fallback rnd extent p v j = (v, j)"
    by (simp add: nan_fallback_def)
  show ?thesis
    by (intro conjI adv topo raw fb keep)
qed

theorem no_non_finite_coordinates_witness:
  "unit_interval ex_rnd \<and> lat ex_bad_node = NaN \<and> lng ex_bad_node = PInf \<and>
   map cn_x (fst (newCanvasNodes ex_rnd [ex_bad_node, ex_plant_b] 0)) = [Fin 400, Fin 60] \<and>
   map cn_y (fst (newCanvasNodes ex_rnd [ex_bad_node, ex_plant_b] 0)) = [Fin 300, Fin 300] \<and>
   map nn_x (fst (networkNodes ex_rnd [ex_bad_node, ex_plant_b] 0)) = [Fin 400, Fin 50] \<and>
   map nn_y (fst (networkNodes ex_rnd [ex_bad_node, ex_plant_b] 0)) = [Fin 300, Fin 300] \<and>
   isNaN (fst (topo_projected_xy (Math_min (map lat [ex_bad_node, ex_plant_b]))
                 (Math_max (map lat [ex_bad_node, ex_plant_b]))
                 (Math_min (map lng [ex_bad_node, ex_plant_b]))
                 (Math_max (map lng [ex_bad_node, ex_plant_b])) ex_bad_node)) \<and>
   nan_fallback ex_rnd (Fin 700) (Fin 50) NaN 0 = (Fin 400, Suc 0) \<and>
   isFinite (cn_x (hd (fst (newCanvasNodes ex_rnd [ex_bad_node, ex_plant_b] 0)))) \<and>
   isFinite (nn_y (hd (fst (networkNodes ex_rnd [ex_bad_node, ex_plant_b] 0))))"
proof -
  have vals: "map cn_x (fst (newCanvasNodes ex_rnd [ex_bad_node, ex_plant_b] 0)) = [Fin 400, Fin 60]"
    "map cn_y (fst (newCanvasNodes ex_rnd [ex_bad_node, ex_plant_b] 0)) = [Fin 300, Fin 300]"
    "map nn_x (fst (networkNodes ex_rnd [ex_bad_node, ex_plant_b] 0)) = [Fin 400, Fin 50]"
    "map nn_y (fst (networkNodes ex_rnd [ex_bad_node, ex_plant_b] 0)) = [Fin 300, Fin 300]"
    by (simp_all add: scene_defs ex_defs num_defs Let_def)
  have raw: "isNaN (fst (topo_projected_xy (Math_min (map lat [ex_bad_node, ex_plant_b]))
                 (Math_max (map lat [ex_bad_node, ex_plant_b]))
                 (Math_min (map lng [ex_bad_node, ex_plant_b]))
                 (Math_max (map lng [ex_bad_node, ex_plant_b])) ex_bad_node))"
    by (simp add: topo_projected_xy_def ex_defs num_defs)
  note inst = no_non_finite_coordinates[OF unit_interval_ex_rnd refl refl refl refl,
               of "[ex_bad_node, ex_plant_b]" 0]
  have fb: "nan_fallback ex_rnd (Fin 700) (Fin 50) NaN 0 = (Fin 400, Suc 0)"
    using inst by (simp add: ex_rnd_def)
  have "hd (fst (newCanvasNodes ex_rnd [ex_bad_node, ex_plant_b] 0)) \<in>
          set (fst (newCanvasNodes ex_rnd [ex_bad_node, ex_plant_b] 0))"
    "hd (fst (networkNodes ex_rnd [ex_bad_node, ex_plant_b] 0)) \<in>
          set (fst (networkNodes ex_rnd [ex_bad_node, ex_plant_b] 0))"
    using vals(1,3) by (auto intro!: hd_in_set)
  then have fin: "isFinite (cn_x (hd (fst (newCanvasNodes ex_rnd [ex_bad_node, ex_plant_b] 0))))"
    "isFinite (nn_y (hd (fst (networkNodes ex_rnd [ex_bad_node, ex_plant_b] 0))))"
    using inst by blast+
  show ?thesis
    using unit_interval_ex_rnd vals raw fb fin by (simp add: ex_bad_node_def)
qed

end
